theory Spec2Isabelle
  imports Main "HOL-Library.AList"
begin

section \<open>Data model\<close>

text \<open>
  The status column of \<^verbatim>\<open>order.entity.ts\<close> is an enum of five values, and
  \<^verbatim>\<open>OrderStatus\<close> of \<^verbatim>\<open>update-order-status.dto.ts\<close> is the union of the same five
  literals.
\<close>

datatype OrderStatus = pendiente | en_procesamiento | enviado | entregado | cancelado

text \<open>
  The request objects. \<^verbatim>\<open>undefined\<close> is \<open>None\<close>. The controller hands
  \<^verbatim>\<open>data: any\<close> to the service, so the item list of a create command may be missing.
\<close>

record CreateOrderItemDto =
  productId :: string
  quantity :: int

record CreateOrderDto =
  clientId :: string
  clientName :: string
  clientEmail :: string
  shippingAddress :: string
  items :: "CreateOrderItemDto list option"

record UpdateOrderStatusDto =
  status :: OrderStatus
  trackingNumber :: "string option"

record CancelOrderDto =
  cancellationReason :: "string option"

text \<open>
  The entities, with the columns the service assigns and reads. The columns that only the
  ORM maintains (the primary key and timestamps of an item, \<^verbatim>\<open>createdAt\<close> and
  \<^verbatim>\<open>updatedAt\<close> of an order) are left out. A \<^verbatim>\<open>Date\<close> is a natural number of
  milliseconds; amounts and quantities are integers. The primary key of an order is
  \<open>None\<close> until the repository has inserted the row.
\<close>

record OrderItem =
  productId :: string
  productName :: string
  unitPrice :: int
  quantity :: int
  subtotal :: int
  productImageUrl :: "string option"

record Order =
  id_col :: "string option"
  clientId :: string
  clientName :: string
  clientEmail :: string
  status :: OrderStatus
  total :: int
  shippingAddress :: string
  trackingNumber :: "string option"
  cancellationReason :: "string option"
  shippedAt :: "nat option"
  deliveredAt :: "nat option"
  cancelledAt :: "nat option"
  items :: "OrderItem list"
  isDeleted :: bool

text \<open>The result of the stock check of \<^verbatim>\<open>RabbitMQService.validateStock\<close>.\<close>

record Unavailable =
  u_productId :: string
  requested :: int
  available :: int

record StockResult =
  allAvailable :: bool
  unavailable :: "Unavailable list"

section \<open>Exceptions, effects and the world\<close>

text \<open>
  The exceptions the services throw. The message of a \<^verbatim>\<open>BadRequestException\<close> is kept
  as a constructor with the values its template interpolates; \<open>Error\<close> is every other
  thrown value (a \<^verbatim>\<open>TypeError\<close>, a \<^verbatim>\<open>SyntaxError\<close>, an error of the broker client or
  of the repository).
\<close>

datatype reason =
    InsufficientStock "Unavailable list"
  | InvalidTransition OrderStatus OrderStatus
  | TrackingRequired
  | CannotCancel OrderStatus

datatype exn =
    NotFoundException string
  | BadRequestException reason
  | InternalServerErrorException string
  | Error string

text \<open>The payloads published to the broker, and the mails handed to SendGrid.\<close>

datatype payload =
    OrderCreated "string option" "(string \<times> int) list"
  | OrderShipped "string option" string string "string option" "(string \<times> int) list"
  | OrderDelivered "string option" string string

datatype mail = Confirmation | StatusUpdate OrderStatus | Cancellation

text \<open>
  Everything the services do to the outside is an event of the trace, in the order
  in which it happens: a row written by \<^verbatim>\<open>orderRepository.save\<close>, a message sent to
  a queue, a mail handed to SendGrid, an acknowledgement, a connection attempt (with its
  retry count), a \<^verbatim>\<open>setTimeout\<close> delay in milliseconds, and an error line that
  \<^verbatim>\<open>connect\<close> writes with \<^verbatim>\<open>logger.error\<close>. The other lines of the loggers (those of
  \<^verbatim>\<open>OrdersService\<close> and \<^verbatim>\<open>SendGridService\<close>, and those that \<^verbatim>\<open>publishMessage\<close>,
  \<^verbatim>\<open>consumeMessages\<close> and \<^verbatim>\<open>validateStock\<close> write) are not events.
\<close>

datatype event =
    Save Order
  | Publish string payload
  | Email mail Order
  | Ack nat
  | Attempt nat
  | Sleep nat
  | LogError string

text \<open>
  The world: the orders table, the configuration, the fields of \<^verbatim>\<open>RabbitMQService\<close>
  (whether the channel is set, the reconnection counter), the handlers suspended at an
  \<^verbatim>\<open>await\<close>, and the trace.
\<close>

record world =
  orders :: "Order list"
  config :: "string \<rightharpoonup> string"
  channel :: bool
  reconnectAttempts :: nat
  pending :: "string list"
  trace :: "event list"

text \<open>
  What a call cannot decide by itself: the clock, the key the database generates for a
  new row, and whether the repository or the broker client rejects a call.
\<close>

record env =
  now :: nat
  freshId :: string
  findThrows :: bool
  saveThrows :: bool
  sendThrows :: bool

text \<open>
  A method is a function from the world to a result and the new world. A thrown
  exception is \<open>Inl\<close>; what was done before the throw stays done. Sequencing, throwing
  and catching are the same for every kind of state, so they are stated for any state
  \<open>'s\<close>; \<open>'a io\<close> is a computation on the world.
\<close>

type_synonym 'a io = "world \<Rightarrow> (exn + 'a) \<times> world"

definition done_io :: "'a \<Rightarrow> 's \<Rightarrow> (exn + 'a) \<times> 's" where
  "done_io x w = (Inr x, w)"

definition throw :: "exn \<Rightarrow> 's \<Rightarrow> (exn + 'a) \<times> 's" where
  "throw x w = (Inl x, w)"

definition andThen ::
  "('s \<Rightarrow> (exn + 'a) \<times> 's) \<Rightarrow> ('a \<Rightarrow> 's \<Rightarrow> (exn + 'b) \<times> 's) \<Rightarrow> 's \<Rightarrow> (exn + 'b) \<times> 's" where
  "andThen m f w = (case m w of (Inl x, w') \<Rightarrow> (Inl x, w') | (Inr a, w') \<Rightarrow> f a w')"

definition catch ::
  "('s \<Rightarrow> (exn + 'a) \<times> 's) \<Rightarrow> (exn \<Rightarrow> 's \<Rightarrow> (exn + 'a) \<times> 's) \<Rightarrow> 's \<Rightarrow> (exn + 'a) \<times> 's" where
  "catch m h w = (case m w of (Inl x, w') \<Rightarrow> h x w' | (Inr a, w') \<Rightarrow> (Inr a, w'))"

definition emit :: "event \<Rightarrow> unit io" where
  "emit ev w = (Inr (), w\<lparr>trace := trace w @ [ev]\<rparr>)"

text \<open>JavaScript truthiness of an optional string: \<^verbatim>\<open>undefined\<close> and \<^verbatim>\<open>''\<close> are falsy.\<close>

definition truthy :: "string option \<Rightarrow> bool" where
  "truthy s = (case s of None \<Rightarrow> False | Some t \<Rightarrow> t \<noteq> [])"

section \<open>OrdersService.validateStatusTransition\<close>

text \<open>
  The object \<^verbatim>\<open>validTransitions\<close> has one key for each of the five statuses, so the
  fallback \<^verbatim>\<open>|| []\<close> of the lookup is never taken. The method returns nothing or throws.
\<close>

definition validTransitions :: "OrderStatus \<Rightarrow> OrderStatus list" where
  "validTransitions currentStatus =
     (case currentStatus of
        pendiente \<Rightarrow> [en_procesamiento, cancelado]
      | en_procesamiento \<Rightarrow> [enviado, cancelado]
      | enviado \<Rightarrow> [entregado, cancelado]
      | entregado \<Rightarrow> []
      | cancelado \<Rightarrow> [])"

definition validateStatusTransition :: "OrderStatus \<Rightarrow> OrderStatus \<Rightarrow> exn + unit" where
  "validateStatusTransition currentStatus newStatus =
     (let allowedStatuses = validTransitions currentStatus in
      if newStatus \<notin> set allowedStatuses
      then Inl (BadRequestException (InvalidTransition currentStatus newStatus))
      else Inr ())"

section \<open>The collaborators\<close>

subsection \<open>The order repository\<close>

text \<open>
  The table is the list of its rows. \<^verbatim>\<open>findOne({ where: { id, isDeleted: false } })\<close>
  selects the row of that key that is not soft-deleted. \<^verbatim>\<open>save\<close> inserts the entity
  under a generated key when it has none, and overwrites the row of its key otherwise.
\<close>

definition selectOrder :: "string \<Rightarrow> Order list \<Rightarrow> Order option" where
  "selectOrder i rows = List.find (\<lambda>row. id_col row = Some i \<and> \<not> isDeleted row) rows"

definition upsert :: "Order \<Rightarrow> Order list \<Rightarrow> Order list" where
  "upsert row rows =
     (if list_ex (\<lambda>r. id_col r = id_col row) rows
      then map (\<lambda>r. if id_col r = id_col row then row else r) rows
      else rows @ [row])"

definition findOne :: "env \<Rightarrow> string \<Rightarrow> Order option io" where
  "findOne e i w =
     (if findThrows e then (Inl (Error ''repository''), w)
      else (Inr (selectOrder i (orders w)), w))"

definition save :: "env \<Rightarrow> Order \<Rightarrow> Order io" where
  "save e order w =
     (if saveThrows e then (Inl (Error ''repository''), w)
      else (let key = (case id_col order of None \<Rightarrow> freshId e | Some i \<Rightarrow> i);
                row = order\<lparr>id_col := Some key\<rparr>
            in (Inr row, w\<lparr>orders := upsert row (orders w), trace := trace w @ [Save row]\<rparr>)))"

subsection \<open>SendGridService\<close>

text \<open>
  Each of the three methods wraps its whole body in \<^verbatim>\<open>try\<close>/\<^verbatim>\<open>catch\<close> and only logs a
  failure, so none of them throws.
\<close>

definition sendOrderConfirmationEmail :: "Order \<Rightarrow> unit io" where
  "sendOrderConfirmationEmail order = emit (Email Confirmation order)"

definition sendOrderStatusUpdateEmail :: "Order \<Rightarrow> OrderStatus \<Rightarrow> unit io" where
  "sendOrderStatusUpdateEmail order previousStatus = emit (Email (StatusUpdate previousStatus) order)"

definition sendOrderCancellationEmail :: "Order \<Rightarrow> unit io" where
  "sendOrderCancellationEmail order = emit (Email Cancellation order)"

subsection \<open>RabbitMQService: publishing\<close>

definition getRequiredConfig :: "string \<Rightarrow> string io" where
  "getRequiredConfig key w =
     (let v = config w key in
      if \<not> truthy v then (Inl (Error (''Missing required config: '' @ key)), w)
      else (Inr (the v), w))"

definition ensureQueue :: "env \<Rightarrow> string \<Rightarrow> unit io" where
  "ensureQueue e queue w =
     (if \<not> channel w then (Inl (Error ''Canal RabbitMQ no inicializado''), w)
      else if sendThrows e then (Inl (Error ''broker''), w)
      else (Inr (), w))"

definition publishMessage :: "env \<Rightarrow> string \<Rightarrow> payload \<Rightarrow> unit io" where
  "publishMessage e queue p =
     catch (andThen (ensureQueue e queue) (\<lambda>_. emit (Publish queue p)))
           (\<lambda>error. throw error)"

definition publishOrderCreated :: "env \<Rightarrow> payload \<Rightarrow> unit io" where
  "publishOrderCreated e p =
     andThen (getRequiredConfig ''RABBITMQ_QUEUE_ORDER_CREATED'') (\<lambda>queue. publishMessage e queue p)"

definition publishOrderShipped :: "env \<Rightarrow> payload \<Rightarrow> unit io" where
  "publishOrderShipped e p =
     andThen (getRequiredConfig ''RABBITMQ_QUEUE_ORDER_SHIPPED'') (\<lambda>queue. publishMessage e queue p)"

definition publishOrderDelivered :: "env \<Rightarrow> payload \<Rightarrow> unit io" where
  "publishOrderDelivered e p =
     andThen (getRequiredConfig ''RABBITMQ_QUEUE_ORDER_DELIVERED'') (\<lambda>queue. publishMessage e queue p)"

subsection \<open>RabbitMQService.validateStock\<close>

text \<open>
  The \<^verbatim>\<open>try\<close> block logs \<^verbatim>\<open>items.length\<close>, which throws when the list is missing; the
  \<^verbatim>\<open>catch\<close> block returns the same object as the \<^verbatim>\<open>try\<close> block.
\<close>

definition validateStock :: "CreateOrderItemDto list option \<Rightarrow> StockResult" where
  "validateStock its =
     (case its of
        Some xs \<Rightarrow> \<lparr>allAvailable = True, unavailable = []\<rparr>
      | None \<Rightarrow> \<lparr>allAvailable = True, unavailable = []\<rparr>)"

section \<open>OrdersService\<close>

subsection \<open>create\<close>

record ProductDetails =
  p_id :: string
  name :: string
  price :: int
  imageUrl :: string

definition getProductDetails :: "string \<Rightarrow> ProductDetails" where
  "getProductDetails pid =
     \<lparr>p_id = pid, name = ''Producto de Ejemplo'', price = 10000,
      imageUrl = ''https://via.placeholder.com/150''\<rparr>"

text \<open>
  \<^verbatim>\<open>getProductDetails\<close> stands for the Products Service (its comment: "Obtiene detalles
  del producto desde el Products Service"); the body above is what the repository has in
  its place. In the body of \<^verbatim>\<open>create\<close> the lookup is an argument, as the stock check of
  the injected \<^verbatim>\<open>RabbitMQService\<close> is; \<^verbatim>\<open>create\<close> itself is the body at the two methods
  as they are written.

  Amounts and quantities are integers. The code computes with doubles, which are exact on
  the integers up to 2^53; the DTO admits every number as a quantity, the column is an
  unsigned integer. The statements about amounts below are at concrete amounts in that
  range.
\<close>

text \<open>The callback of \<^verbatim>\<open>createOrderDto.items.map\<close>, without its addition to the total.\<close>

definition newOrderItem :: "(string \<Rightarrow> ProductDetails) \<Rightarrow> CreateOrderItemDto \<Rightarrow> OrderItem" where
  "newOrderItem lookup itemDto =
     (let productDetails = lookup (CreateOrderItemDto.productId itemDto);
          sub = price productDetails * CreateOrderItemDto.quantity itemDto
      in \<lparr>productId = CreateOrderItemDto.productId itemDto,
          productName = name productDetails,
          unitPrice = price productDetails,
          quantity = CreateOrderItemDto.quantity itemDto,
          subtotal = sub,
          productImageUrl = Some (imageUrl productDetails)\<rparr>)"

text \<open>\<^verbatim>\<open>totalAmount += subtotal\<close>, item after item, from 0.\<close>

definition totalAmount :: "(string \<Rightarrow> ProductDetails) \<Rightarrow> CreateOrderItemDto list \<Rightarrow> int" where
  "totalAmount lookup its =
     foldl (\<lambda>acc itemDto. acc + subtotal (newOrderItem lookup itemDto)) 0 its"

text \<open>
  \<^verbatim>\<open>acc[item.productId] = item.quantity\<close> on a plain object, item after item: a later item
  of the same product overwrites the quantity, and the key \<^verbatim>\<open>__proto__\<close> is swallowed by
  the setter of \<^verbatim>\<open>Object.prototype\<close>.
\<close>

definition productsMap :: "OrderItem list \<Rightarrow> (string \<times> int) list" where
  "productsMap its =
     foldl (\<lambda>acc item. if productId item = ''__proto__'' then acc
                        else AList.update (productId item) (quantity item) acc) [] its"

definition publishOrderCreatedEvent :: "env \<Rightarrow> Order \<Rightarrow> unit io" where
  "publishOrderCreatedEvent e order =
     catch (publishOrderCreated e (OrderCreated (id_col order) (productsMap (items order))))
           (\<lambda>error. done_io ())"

text \<open>
  The body of the \<^verbatim>\<open>try\<close> block of \<^verbatim>\<open>create\<close>, with the stock check and the product
  lookup as its first two arguments.
\<close>

definition create_try ::
  "(CreateOrderItemDto list option \<Rightarrow> StockResult) \<Rightarrow> (string \<Rightarrow> ProductDetails)
     \<Rightarrow> env \<Rightarrow> CreateOrderDto \<Rightarrow> Order io" where
  "create_try stockCheck lookup e createOrderDto =
     (let productsWithStock = stockCheck (CreateOrderDto.items createOrderDto) in
      if \<not> allAvailable productsWithStock
      then throw (BadRequestException (InsufficientStock (unavailable productsWithStock)))
      else
        (let order = \<lparr>id_col = None,
                      clientId = CreateOrderDto.clientId createOrderDto,
                      clientName = CreateOrderDto.clientName createOrderDto,
                      clientEmail = CreateOrderDto.clientEmail createOrderDto,
                      status = pendiente,
                      total = 0,
                      shippingAddress = CreateOrderDto.shippingAddress createOrderDto,
                      trackingNumber = None, cancellationReason = None,
                      shippedAt = None, deliveredAt = None, cancelledAt = None,
                      items = [], isDeleted = False\<rparr>
         in case CreateOrderDto.items createOrderDto of
              None \<Rightarrow> throw (Error ''TypeError'')
            | Some its \<Rightarrow>
                (let orderItems = map (newOrderItem lookup) its;
                     order = order\<lparr>items := orderItems, total := totalAmount lookup its\<rparr>
                 in andThen (save e order) (\<lambda>savedOrder.
                    andThen (publishOrderCreatedEvent e savedOrder) (\<lambda>_.
                    andThen (sendOrderConfirmationEmail savedOrder) (\<lambda>_.
                    done_io savedOrder))))))"

definition create_with ::
  "(CreateOrderItemDto list option \<Rightarrow> StockResult) \<Rightarrow> (string \<Rightarrow> ProductDetails)
     \<Rightarrow> env \<Rightarrow> CreateOrderDto \<Rightarrow> Order io" where
  "create_with stockCheck lookup e createOrderDto =
     catch (create_try stockCheck lookup e createOrderDto)
       (\<lambda>error. case error of
                   BadRequestException r \<Rightarrow> throw error
                 | _ \<Rightarrow> throw (InternalServerErrorException ''Error al procesar el pedido''))"

definition create :: "env \<Rightarrow> CreateOrderDto \<Rightarrow> Order io" where
  "create = create_with validateStock getProductDetails"

subsection \<open>updateStatus\<close>

text \<open>
  \<^verbatim>\<open>findOne\<close> hands the method an entity object, and the method assigns to its fields
  as it goes: the status right after the validation (line 235), before the \<^verbatim>\<open>switch\<close>
  and its check of the tracking number. So the \<^verbatim>\<open>try\<close> block, from the validation on,
  runs on the object and the world: an assignment changes the object, a call of a
  collaborator changes the world, and a throw leaves both as they are at that point. The
  assignments reach the table only through \<^verbatim>\<open>save\<close>; the caller gets the result and the
  world, and the object is dropped.
\<close>

type_synonym 'a entity_io = "Order \<times> world \<Rightarrow> (exn + 'a) \<times> (Order \<times> world)"

definition entity :: "Order entity_io" where
  "entity s = (Inr (fst s), s)"

definition assign :: "(Order \<Rightarrow> Order) \<Rightarrow> unit entity_io" where
  "assign f s = (Inr (), (f (fst s), snd s))"

definition inWorld :: "'a io \<Rightarrow> 'a entity_io" where
  "inWorld m s = (case m (snd s) of (r, w') \<Rightarrow> (r, (fst s, w')))"

definition shippedItems :: "OrderItem list \<Rightarrow> (string \<times> int) list" where
  "shippedItems its = map (\<lambda>item. (productId item, quantity item)) its"

text \<open>The \<^verbatim>\<open>try\<close> block of \<^verbatim>\<open>updateStatus\<close> from line 231 on, for the loaded entity.\<close>

definition updateStatus_loaded :: "env \<Rightarrow> UpdateOrderStatusDto \<Rightarrow> Order entity_io" where
  "updateStatus_loaded e updateDto =
     andThen entity (\<lambda>order.
       case validateStatusTransition (status order) (UpdateOrderStatusDto.status updateDto) of
         Inl error \<Rightarrow> throw error
       | Inr _ \<Rightarrow>
          (let previousStatus = status order in
           andThen (assign (\<lambda>order. order\<lparr>status := UpdateOrderStatusDto.status updateDto\<rparr>)) (\<lambda>_.
           andThen
             (case UpdateOrderStatusDto.status updateDto of
                enviado \<Rightarrow>
                  if \<not> truthy (UpdateOrderStatusDto.trackingNumber updateDto)
                  then throw (BadRequestException TrackingRequired)
                  else
                    andThen (assign (\<lambda>order.
                               order\<lparr>trackingNumber := UpdateOrderStatusDto.trackingNumber updateDto,
                                     shippedAt := Some (now e)\<rparr>)) (\<lambda>_.
                    andThen entity (\<lambda>order.
                    inWorld (publishOrderShipped e
                               (OrderShipped (id_col order) (clientId order) (clientEmail order)
                                  (trackingNumber order) (shippedItems (items order))))))
              | entregado \<Rightarrow>
                    andThen (assign (\<lambda>order. order\<lparr>deliveredAt := Some (now e)\<rparr>)) (\<lambda>_.
                    andThen entity (\<lambda>order.
                    inWorld (publishOrderDelivered e
                               (OrderDelivered (id_col order) (clientId order) (clientEmail order)))))
              | cancelado \<Rightarrow> assign (\<lambda>order. order\<lparr>cancelledAt := Some (now e)\<rparr>)
              | _ \<Rightarrow> done_io ())
             (\<lambda>_.
                andThen entity (\<lambda>order.
                andThen (inWorld (save e order)) (\<lambda>updatedOrder.
                andThen (inWorld (sendOrderStatusUpdateEmail updatedOrder previousStatus)) (\<lambda>_.
                done_io updatedOrder)))))))"

text \<open>
  The whole \<^verbatim>\<open>try\<close> block: the result, the entity object as the block leaves it
  (\<open>None\<close> when no order was loaded), and the world.
\<close>

definition updateStatus_try ::
  "env \<Rightarrow> string \<Rightarrow> UpdateOrderStatusDto \<Rightarrow> world \<Rightarrow> (exn + Order) \<times> (Order option \<times> world)" where
  "updateStatus_try e i updateDto w =
     (case findOne e i w of
        (Inl error, w') \<Rightarrow> (Inl error, (None, w'))
      | (Inr None, w') \<Rightarrow> (Inl (NotFoundException i), (None, w'))
      | (Inr (Some order), w') \<Rightarrow>
          (case updateStatus_loaded e updateDto (order, w') of
             (r, (order', w'')) \<Rightarrow> (r, (Some order', w''))))"

definition updateStatus :: "env \<Rightarrow> string \<Rightarrow> UpdateOrderStatusDto \<Rightarrow> Order io" where
  "updateStatus e i updateDto =
     catch (\<lambda>w. case updateStatus_try e i updateDto w of (r, (held, w')) \<Rightarrow> (r, w'))
       (\<lambda>error. case error of
                   NotFoundException m \<Rightarrow> throw error
                 | BadRequestException r \<Rightarrow> throw error
                 | _ \<Rightarrow> throw (InternalServerErrorException ''Error al actualizar el estado del pedido''))"

text \<open>The entity object that a call of \<^verbatim>\<open>updateStatus\<close> held, as the call leaves it.\<close>

definition updateStatus_entity ::
  "env \<Rightarrow> string \<Rightarrow> UpdateOrderStatusDto \<Rightarrow> world \<Rightarrow> Order option" where
  "updateStatus_entity e i updateDto w = fst (snd (updateStatus_try e i updateDto w))"

subsection \<open>cancel\<close>

definition cancel_try :: "env \<Rightarrow> string \<Rightarrow> CancelOrderDto \<Rightarrow> Order io" where
  "cancel_try e i cancelDto =
     andThen (findOne e i) (\<lambda>found.
       case found of
         None \<Rightarrow> throw (NotFoundException i)
       | Some order \<Rightarrow>
           if status order \<in> set [entregado, cancelado]
           then throw (BadRequestException (CannotCancel (status order)))
           else
             (let order = order
                    \<lparr>status := cancelado,
                     cancellationReason :=
                       (if truthy (CancelOrderDto.cancellationReason cancelDto)
                        then CancelOrderDto.cancellationReason cancelDto
                        else Some ''Cancelado por el usuario''),
                     cancelledAt := Some (now e)\<rparr>
              in andThen (save e order) (\<lambda>cancelledOrder.
                 andThen (sendOrderCancellationEmail cancelledOrder) (\<lambda>_.
                 done_io cancelledOrder))))"

definition cancel :: "env \<Rightarrow> string \<Rightarrow> CancelOrderDto \<Rightarrow> Order io" where
  "cancel e i cancelDto =
     catch (cancel_try e i cancelDto)
       (\<lambda>error. case error of
                   NotFoundException m \<Rightarrow> throw error
                 | BadRequestException r \<Rightarrow> throw error
                 | _ \<Rightarrow> throw (InternalServerErrorException ''Error al cancelar el pedido''))"

subsection \<open>handleFailedStock\<close>

text \<open>
  The message of the queue \<^verbatim>\<open>order.failed.stock\<close>, with the fields the handler reads.
  The parsed body may be \<^verbatim>\<open>null\<close> (\<open>None\<close>), on which \<^verbatim>\<open>data.message\<close> throws.
\<close>

record StockFailedMessage =
  orderId :: "string option"
  OrderId :: "string option"

record StockFailedData =
  message :: "StockFailedMessage option"

text \<open>
  The handler up to its first \<^verbatim>\<open>await\<close>: \<open>Inl\<close> when it throws, \<open>Inr None\<close> when it
  logs an error and returns, \<open>Inr (Some orderId)\<close> when it goes on to load the order.
\<close>

definition failedOrderId :: "StockFailedData option \<Rightarrow> exn + string option" where
  "failedOrderId data =
     (case data of
        None \<Rightarrow> Inl (Error ''TypeError'')
      | Some d \<Rightarrow>
         (case message d of
            None \<Rightarrow> Inr None
          | Some messagePayload \<Rightarrow>
             (let oid = (if truthy (orderId messagePayload) then orderId messagePayload
                         else OrderId messagePayload)
              in if \<not> truthy oid then Inr None else Inr oid)))"

text \<open>The handler from the \<^verbatim>\<open>await\<close> of \<^verbatim>\<open>findOne\<close> to the end of its \<^verbatim>\<open>try\<close> block.\<close>

definition cancelForStock :: "env \<Rightarrow> string \<Rightarrow> unit io" where
  "cancelForStock e oid =
     andThen (findOne e oid) (\<lambda>found.
       case found of
         None \<Rightarrow> done_io ()
       | Some order \<Rightarrow>
           if status order \<noteq> pendiente then done_io ()
           else
             (let order = order\<lparr>status := cancelado,
                                 cancellationReason := Some ''Stock insuficiente'',
                                 cancelledAt := Some (now e)\<rparr>
              in andThen (save e order) (\<lambda>_. sendOrderCancellationEmail order)))"

definition handleFailedStock :: "env \<Rightarrow> StockFailedData option \<Rightarrow> unit io" where
  "handleFailedStock e data =
     catch (case failedOrderId data of
              Inl error \<Rightarrow> throw error
            | Inr None \<Rightarrow> done_io ()
            | Inr (Some oid) \<Rightarrow> cancelForStock e oid)
           (\<lambda>error. done_io ())"

section \<open>RabbitMQService: consuming\<close>

text \<open>
  A delivery has a tag and a body; \<^verbatim>\<open>JSON.parse\<close> of the body is \<open>None\<close> when the body
  is not JSON (it throws a \<^verbatim>\<open>SyntaxError\<close>). The function given to
  \<^verbatim>\<open>channel.consume\<close> is called with \<^verbatim>\<open>null\<close> (\<open>None\<close>) when the consumer is cancelled.
\<close>

record 'a delivery =
  tag :: nat
  parsed :: "'a option"

definition consumer :: "('a \<Rightarrow> unit io) \<Rightarrow> 'a delivery option \<Rightarrow> unit io" where
  "consumer callback msg =
     (case msg of
        None \<Rightarrow> done_io ()
      | Some m \<Rightarrow>
         (case parsed m of
            None \<Rightarrow> throw (Error ''SyntaxError'')
          | Some content \<Rightarrow> andThen (callback content) (\<lambda>_. emit (Ack (tag m)))))"

text \<open>
  The callback that \<^verbatim>\<open>onModuleInit\<close> registers is an \<^verbatim>\<open>async\<close> function: a call of it
  runs \<^verbatim>\<open>handleFailedStock\<close> up to its first \<^verbatim>\<open>await\<close> and returns a promise; it never
  throws. A handler that has reached the \<^verbatim>\<open>await\<close> of \<^verbatim>\<open>findOne\<close> is suspended with its
  order id, and \<open>resume\<close> runs the oldest suspended handler to its end.
\<close>

definition failedStockCallback :: "StockFailedData option \<Rightarrow> unit io" where
  "failedStockCallback data w =
     (case failedOrderId data of
        Inr (Some oid) \<Rightarrow> (Inr (), w\<lparr>pending := pending w @ [oid]\<rparr>)
      | _ \<Rightarrow> (Inr (), w))"

definition resume :: "env \<Rightarrow> unit io" where
  "resume e w =
     (case pending w of
        [] \<Rightarrow> (Inr (), w)
      | oid # rest \<Rightarrow> catch (cancelForStock e oid) (\<lambda>error. done_io ()) (w\<lparr>pending := rest\<rparr>))"

definition failedStockConsumer :: "StockFailedData option delivery option \<Rightarrow> unit io" where
  "failedStockConsumer = consumer failedStockCallback"

section \<open>RabbitMQService.connect\<close>

text \<open>
  What the \<^verbatim>\<open>try\<close> block of one attempt does is decided by the broker: the connection
  fails, the channel cannot be created, a queue cannot be asserted (the channel is set by
  then), or everything succeeds.
\<close>

datatype attempt = ConnectFails | ChannelFails | AssertFails | Connects

definition maxReconnectAttempts :: nat where
  "maxReconnectAttempts = 10"

definition delay :: "nat \<Rightarrow> nat" where
  "delay retryCount = min (1000 * 2 ^ retryCount) 30000"

definition attempted :: "attempt \<Rightarrow> nat \<Rightarrow> world \<Rightarrow> world" where
  "attempted outcome retryCount w =
     (let w = w\<lparr>trace := trace w @ [Attempt retryCount]\<rparr> in
      case outcome of
        Connects \<Rightarrow> w\<lparr>channel := True, reconnectAttempts := 0\<rparr>
      | AssertFails \<Rightarrow> w\<lparr>channel := True, trace := trace w @ [LogError ''Error conectando a RabbitMQ'']\<rparr>
      | _ \<Rightarrow> w\<lparr>trace := trace w @ [LogError ''Error conectando a RabbitMQ'']\<rparr>)"

function connect :: "(nat \<Rightarrow> attempt) \<Rightarrow> nat \<Rightarrow> unit io" where
  "connect broker retryCount w =
     (if broker retryCount = Connects then (Inr (), attempted Connects retryCount w)
      else if retryCount < maxReconnectAttempts
      then connect broker (retryCount + 1)
             (snd (emit (Sleep (delay retryCount)) (attempted (broker retryCount) retryCount w)))
      else emit (LogError ''Maximo de reintentos alcanzado. No se pudo conectar a RabbitMQ.'')
             (attempted (broker retryCount) retryCount w))"
  by pat_completeness auto
termination
  by (relation "measure (\<lambda>(broker, retryCount, w). maxReconnectAttempts - retryCount)") auto

declare connect.simps [simp del]

section \<open>The transition table of the specification, and concrete inputs\<close>

text \<open>The edges of the table of section 4.3 of the specification, row by row.\<close>

definition transition_table :: "(OrderStatus \<times> OrderStatus) list" where
  "transition_table =
     [(pendiente, en_procesamiento), (pendiente, cancelado),
      (en_procesamiento, enviado), (en_procesamiento, cancelado),
      (enviado, entregado), (enviado, cancelado)]"

text \<open>Projections of a trace: the delays slept, and the retry counts of the attempts.\<close>

fun sleeps :: "event list \<Rightarrow> nat list" where
  "sleeps [] = []"
| "sleeps (Sleep ms # evs) = ms # sleeps evs"
| "sleeps (_ # evs) = sleeps evs"

fun attempts :: "event list \<Rightarrow> nat list" where
  "attempts [] = []"
| "attempts (Attempt n # evs) = n # attempts evs"
| "attempts (_ # evs) = attempts evs"

definition maxed :: event where
  "maxed = LogError ''Maximo de reintentos alcanzado. No se pudo conectar a RabbitMQ.''"

text \<open>
  A world with one order \<open>o1\<close> of one item in a given status, a configured broker with
  an open channel, and an environment in which no collaborator rejects a call.
\<close>

definition env0 :: env where
  "env0 = \<lparr>now = 1700000000000, freshId = ''o2'', findThrows = False, saveThrows = False,
           sendThrows = False\<rparr>"

definition item0 :: OrderItem where
  "item0 = \<lparr>productId = ''p1'', productName = ''Producto de Ejemplo'', unitPrice = 10000,
            quantity = 2, subtotal = 20000,
            productImageUrl = Some ''https://via.placeholder.com/150''\<rparr>"

definition order0 :: "OrderStatus \<Rightarrow> Order" where
  "order0 st = \<lparr>id_col = Some ''o1'', clientId = ''c1'', clientName = ''Ana'',
                clientEmail = ''ana@example.com'', status = st, total = 20000,
                shippingAddress = ''Calle 1'', trackingNumber = None,
                cancellationReason = None, shippedAt = None, deliveredAt = None,
                cancelledAt = None, items = [item0], isDeleted = False\<rparr>"

definition queues :: "string \<rightharpoonup> string" where
  "queues = map_of
     [(''RABBITMQ_QUEUE_ORDER_CREATED'', ''order.created''),
      (''RABBITMQ_QUEUE_ORDER_FAILED'', ''order.failed.stock''),
      (''RABBITMQ_QUEUE_ORDER_SHIPPED'', ''order.shipped''),
      (''RABBITMQ_QUEUE_ORDER_DELIVERED'', ''order.delivered'')]"

definition world0 :: "OrderStatus \<Rightarrow> world" where
  "world0 st = \<lparr>orders = [order0 st], config = queues, channel = True,
                reconnectAttempts = 0, pending = [], trace = []\<rparr>"

text \<open>The order as \<^verbatim>\<open>cancel\<close> assigns it before saving.\<close>

definition cancelled :: "env \<Rightarrow> CancelOrderDto \<Rightarrow> Order \<Rightarrow> Order" where
  "cancelled e dto order =
     order\<lparr>status := cancelado,
           cancellationReason :=
             (if truthy (CancelOrderDto.cancellationReason dto) then CancelOrderDto.cancellationReason dto
              else Some ''Cancelado por el usuario''),
           cancelledAt := Some (now e)\<rparr>"

text \<open>The order as \<^verbatim>\<open>handleFailedStock\<close> assigns it before saving.\<close>

definition stockCancelled :: "env \<Rightarrow> Order \<Rightarrow> Order" where
  "stockCancelled e order =
     order\<lparr>status := cancelado, cancellationReason := Some ''Stock insuficiente'',
           cancelledAt := Some (now e)\<rparr>"

text \<open>The order as \<^verbatim>\<open>updateStatus\<close> assigns it on the way to \<^verbatim>\<open>enviado\<close>, and the payload it publishes.\<close>

definition shipped :: "env \<Rightarrow> UpdateOrderStatusDto \<Rightarrow> Order \<Rightarrow> Order" where
  "shipped e dto order =
     order\<lparr>status := enviado, trackingNumber := UpdateOrderStatusDto.trackingNumber dto,
           shippedAt := Some (now e)\<rparr>"

definition shippedPayload :: "Order \<Rightarrow> payload" where
  "shippedPayload order =
     OrderShipped (id_col order) (clientId order) (clientEmail order) (trackingNumber order)
       (shippedItems (items order))"

text \<open>Requests, a stock check that reports a shortage, a stock-failure message for \<open>o1\<close>, and a broker that refuses every connection.\<close>

definition dto0 :: "OrderStatus \<Rightarrow> UpdateOrderStatusDto" where
  "dto0 st = \<lparr>UpdateOrderStatusDto.status = st, UpdateOrderStatusDto.trackingNumber = None\<rparr>"

definition ship_dto :: UpdateOrderStatusDto where
  "ship_dto = \<lparr>UpdateOrderStatusDto.status = enviado,
               UpdateOrderStatusDto.trackingNumber = Some ''TRK1''\<rparr>"

definition cancel0 :: CancelOrderDto where
  "cancel0 = \<lparr>CancelOrderDto.cancellationReason = None\<rparr>"

definition dto8 :: CreateOrderDto where
  "dto8 = \<lparr>CreateOrderDto.clientId = ''c1'', CreateOrderDto.clientName = ''Ana'',
            CreateOrderDto.clientEmail = ''ana@example.com'',
            CreateOrderDto.shippingAddress = ''Calle 1'',
            CreateOrderDto.items =
              Some [\<lparr>CreateOrderItemDto.productId = ''p1'', CreateOrderItemDto.quantity = 2\<rparr>,
                    \<lparr>CreateOrderItemDto.productId = ''p2'', CreateOrderItemDto.quantity = 1\<rparr>]\<rparr>"

definition noStock :: "CreateOrderItemDto list option \<Rightarrow> StockResult" where
  "noStock its = \<lparr>allAvailable = False,
                  unavailable = [\<lparr>u_productId = ''p1'', requested = 2, available = 0\<rparr>]\<rparr>"

definition data0 :: "StockFailedData option" where
  "data0 = Some \<lparr>message = Some \<lparr>orderId = Some ''o1'', OrderId = None\<rparr>\<rparr>"

definition unreachable :: "nat \<Rightarrow> attempt" where
  "unreachable n = ConnectFails"


definition canPublish :: "env \<Rightarrow> world \<Rightarrow> string \<Rightarrow> bool" where
  "canPublish e w key = (truthy (config w key) \<and> channel w \<and> \<not> sendThrows e)"

text \<open>
  The order as \<^verbatim>\<open>updateStatus\<close> has assigned it when it calls \<^verbatim>\<open>save\<close>: the requested
  status, and the fields of the \<^verbatim>\<open>switch\<close> case of that status.
\<close>

definition applied :: "env \<Rightarrow> UpdateOrderStatusDto \<Rightarrow> Order \<Rightarrow> Order" where
  "applied e dto order =
     (case UpdateOrderStatusDto.status dto of
        enviado \<Rightarrow> order\<lparr>status := enviado,
                         trackingNumber := UpdateOrderStatusDto.trackingNumber dto,
                         shippedAt := Some (now e)\<rparr>
      | entregado \<Rightarrow> order\<lparr>status := entregado, deliveredAt := Some (now e)\<rparr>
      | cancelado \<Rightarrow> order\<lparr>status := cancelado, cancelledAt := Some (now e)\<rparr>
      | st \<Rightarrow> order\<lparr>status := st\<rparr>)"

text \<open>The items of the two-item command: \<open>p1\<close> twice and \<open>p2\<close> once.\<close>

definition two_items :: "CreateOrderItemDto list" where
  "two_items = [\<lparr>CreateOrderItemDto.productId = ''p1'', CreateOrderItemDto.quantity = 2\<rparr>,
                \<lparr>CreateOrderItemDto.productId = ''p2'', CreateOrderItemDto.quantity = 1\<rparr>]"

text \<open>A broker that accepts the third attempt.\<close>

definition third :: "nat \<Rightarrow> attempt" where
  "third n = (if n = 2 then Connects else ConnectFails)"

section \<open>Auxiliary facts\<close>

lemmas updateStatus_defs = updateStatus_def updateStatus_try_def updateStatus_loaded_def
  entity_def assign_def inWorld_def

lemma selectOrder_Some:
  "selectOrder i rows = Some row \<Longrightarrow> id_col row = Some i \<and> \<not> isDeleted row"
  by (auto simp: selectOrder_def find_Some_iff)

lemma selectOrder_upsert:
  "id_col row = Some i \<Longrightarrow> \<not> isDeleted row \<Longrightarrow> selectOrder i (upsert row rows) = Some row"
proof (induction rows)
  case Nil
  then show ?case by (simp add: selectOrder_def upsert_def)
next
  case (Cons r rows)
  then show ?case
    by (auto simp: selectOrder_def upsert_def list_ex_iff split: if_splits option.splits)
qed

lemma selectOrder_world0: "selectOrder ''o1'' (orders (world0 st)) = Some (order0 st)"
  by (simp add: selectOrder_def world0_def order0_def)

lemma validate_table:
  "validateStatusTransition cur req =
     (if (cur, req) \<in> set transition_table then Inr ()
      else Inl (BadRequestException (InvalidTransition cur req)))"
  by (cases cur; cases req)
     (simp_all add: validateStatusTransition_def validTransitions_def transition_table_def)

lemma updateStatus_rejected:
  assumes "selectOrder i (orders w) = Some order" "\<not> findThrows e"
    "(status order, UpdateOrderStatusDto.status dto) \<notin> set transition_table"
  shows "updateStatus e i dto w =
           (Inl (BadRequestException
                   (InvalidTransition (status order) (UpdateOrderStatusDto.status dto))), w)"
  using assms
  by (simp add: updateStatus_defs catch_def andThen_def findOne_def
        throw_def validate_table)

lemma updateStatus_success:
  assumes "updateStatus e i dto w = (Inr order', w')"
  shows "\<exists>order. selectOrder i (orders w) = Some order
           \<and> (status order, UpdateOrderStatusDto.status dto) \<in> set transition_table
           \<and> status order' = UpdateOrderStatusDto.status dto
           \<and> selectOrder i (orders w') = Some order'"
proof -
  from assms obtain order where sel: "selectOrder i (orders w) = Some order"
    and nf: "\<not> findThrows e"
    by (auto simp: updateStatus_defs catch_def andThen_def findOne_def
          throw_def split: if_splits option.splits prod.splits sum.splits exn.splits)
  have idc: "id_col order = Some i" "\<not> isDeleted order"
    using selectOrder_Some[OF sel] by auto
  have tab: "(status order, UpdateOrderStatusDto.status dto) \<in> set transition_table"
    using assms sel nf
    by (auto simp: updateStatus_defs catch_def andThen_def findOne_def
          throw_def validate_table split: if_splits)
  have ns: "\<not> saveThrows e"
    using assms sel nf tab
    by (auto simp: updateStatus_defs catch_def andThen_def findOne_def
          throw_def validate_table save_def done_io_def Let_def
        split: if_splits OrderStatus.splits prod.splits sum.splits exn.splits)
  show ?thesis
    using assms sel nf tab ns idc
    apply (simp add: updateStatus_defs catch_def andThen_def findOne_def
          throw_def validate_table save_def done_io_def Let_def sendOrderStatusUpdateEmail_def
          emit_def
        split: if_splits OrderStatus.splits prod.splits sum.splits exn.splits)
    apply (auto simp: selectOrder_upsert)
    done
qed

lemmas io_defs = catch_def andThen_def throw_def done_io_def emit_def findOne_def save_def

lemma save_keyed:
  "\<not> saveThrows e \<Longrightarrow> id_col order = Some i \<Longrightarrow>
   save e order w = (Inr order, w\<lparr>orders := upsert order (orders w), trace := trace w @ [Save order]\<rparr>)"
  by (cases order) (simp add: save_def Let_def)

lemmas io_defs' = catch_def andThen_def throw_def done_io_def emit_def findOne_def

lemma cancel_refused:
  assumes "selectOrder i (orders w) = Some order" "status order = entregado \<or> status order = cancelado"
  shows "cancel e i dto w =
           (Inl (if findThrows e then InternalServerErrorException ''Error al cancelar el pedido''
                 else BadRequestException (CannotCancel (status order))), w)"
  using assms by (auto simp: cancel_def cancel_try_def io_defs)

lemma cancel_accepted:
  assumes sel: "selectOrder i (orders w) = Some order"
    and st: "status order = pendiente \<or> status order = en_procesamiento \<or> status order = enviado"
    and ok: "\<not> findThrows e" "\<not> saveThrows e"
  shows "cancel e i dto w =
           (Inr (cancelled e dto order),
            w\<lparr>orders := upsert (cancelled e dto order) (orders w),
              trace := trace w @ [Save (cancelled e dto order), Email Cancellation (cancelled e dto order)]\<rparr>)"
proof -
  have idc: "id_col order = Some i" using selectOrder_Some[OF sel] by simp
  have idc': "id_col (cancelled e dto order) = Some i"
    using idc by (simp add: cancelled_def)
  show ?thesis
    using sel st ok save_keyed[OF ok(2) idc', of w]
    by (auto simp: cancel_def cancel_try_def io_defs' Let_def sendOrderCancellationEmail_def
          cancelled_def[symmetric])
qed

lemma cancelled_fields:
  "status (cancelled e dto order) = cancelado"
  "cancelledAt (cancelled e dto order) = Some (now e)"
  "\<exists>r. cancellationReason (cancelled e dto order) = Some r \<and> r \<noteq> []"
  "cancellationReason (cancelled e dto order) =
     (if truthy (CancelOrderDto.cancellationReason dto) then CancelOrderDto.cancellationReason dto
      else Some ''Cancelado por el usuario'')"
  "id_col (cancelled e dto order) = id_col order"
  "isDeleted (cancelled e dto order) = isDeleted order"
  by (auto simp: cancelled_def truthy_def split: option.splits)

lemma handle_never_throws: "fst (handleFailedStock e data w) = Inr ()"
  by (auto simp: handleFailedStock_def cancelForStock_def io_defs Let_def sendOrderCancellationEmail_def
        split: sum.splits option.splits prod.splits)

lemma handle_no_id:
  "failedOrderId data \<noteq> Inr (Some oid) \<Longrightarrow> \<forall>oid. failedOrderId data \<noteq> Inr (Some oid) \<Longrightarrow> handleFailedStock e data w = (Inr (), w)"
  by (auto simp: handleFailedStock_def io_defs split: sum.splits option.splits)

lemma handle_discards:
  assumes "failedOrderId data = Inr (Some oid)"
    and "selectOrder oid (orders w) = None \<or> (\<exists>order. selectOrder oid (orders w) = Some order \<and> status order \<noteq> pendiente)"
  shows "handleFailedStock e data w = (Inr (), w)"
  using assms
  by (auto simp: handleFailedStock_def cancelForStock_def io_defs)

lemma handle_cancels:
  assumes fid: "failedOrderId data = Inr (Some oid)"
    and sel: "selectOrder oid (orders w) = Some order" and st: "status order = pendiente"
    and ok: "\<not> findThrows e" "\<not> saveThrows e"
  shows "handleFailedStock e data w =
           (Inr (), w\<lparr>orders := upsert (stockCancelled e order) (orders w),
                     trace := trace w @ [Save (stockCancelled e order), Email Cancellation (stockCancelled e order)]\<rparr>)"
proof -
  have idc: "id_col order = Some oid" using selectOrder_Some[OF sel] by simp
  have idc': "id_col (stockCancelled e order) = Some oid"
    using idc by (simp add: stockCancelled_def)
  show ?thesis
    using fid sel st ok save_keyed[OF ok(2) idc', of w]
    by (auto simp: handleFailedStock_def cancelForStock_def io_defs' Let_def sendOrderCancellationEmail_def
          stockCancelled_def[symmetric])
qed

lemmas publish_defs = publishOrderShipped_def publishOrderDelivered_def publishOrderCreated_def
  publishMessage_def getRequiredConfig_def ensureQueue_def

lemma updateStatus_enviado:
  assumes sel: "selectOrder i (orders w) = Some order"
    and st: "status order = en_procesamiento" "UpdateOrderStatusDto.status dto = enviado"
    and tn: "truthy (UpdateOrderStatusDto.trackingNumber dto)"
    and ok: "\<not> findThrows e" "\<not> sendThrows e" "channel w"
    and q: "config w ''RABBITMQ_QUEUE_ORDER_SHIPPED'' = Some q" "q \<noteq> []"
  shows "updateStatus e i dto w =
     (if saveThrows e
      then (Inl (InternalServerErrorException ''Error al actualizar el estado del pedido''),
            w\<lparr>trace := trace w @ [Publish q (shippedPayload (shipped e dto order))]\<rparr>)
      else (Inr (shipped e dto order),
            w\<lparr>orders := upsert (shipped e dto order) (orders w),
              trace := trace w @ [Publish q (shippedPayload (shipped e dto order)),
                                  Save (shipped e dto order),
                                  Email (StatusUpdate en_procesamiento) (shipped e dto order)]\<rparr>))"
proof -
  have idc: "id_col order = Some i" using selectOrder_Some[OF sel] by simp
  have idc': "id_col (shipped e dto order) = Some i"
    using idc by (simp add: shipped_def)
  have sh: "order\<lparr>status := enviado, trackingNumber := UpdateOrderStatusDto.trackingNumber dto,
           shippedAt := Some (now e)\<rparr> = shipped e dto order"
    by (simp add: shipped_def)
  show ?thesis
  proof (cases "saveThrows e")
    case True
    then show ?thesis
      using sel st tn ok q
      by (simp add: updateStatus_defs io_defs' Let_def publish_defs
          validate_table transition_table_def sh shippedPayload_def[symmetric] save_def truthy_def)
  next
    case False
    then show ?thesis
      using sel st tn ok q save_keyed[OF False idc']
      by (simp add: updateStatus_defs io_defs' Let_def publish_defs
          validate_table transition_table_def sh shippedPayload_def[symmetric] truthy_def
          sendOrderStatusUpdateEmail_def)
  qed
qed

lemma updateStatus_publish_precedes_save:
  assumes "updateStatus e i dto w = (Inr order', w')"
    and "UpdateOrderStatusDto.status dto = enviado \<or> UpdateOrderStatusDto.status dto = entregado"
  shows "\<exists>q p prev. trace w' = trace w @ [Publish q p, Save order', Email (StatusUpdate prev) order']"
  using assms
  by (auto simp: updateStatus_defs io_defs Let_def publish_defs
        sendOrderStatusUpdateEmail_def
      split: if_splits option.splits sum.splits prod.splits exn.splits)

lemma foldl_add: "foldl (\<lambda>acc x. acc + f x) (a::int) xs = a + sum_list (map f xs)"
  by (induction xs arbitrary: a) simp_all

lemma totalAmount_sum:
  "totalAmount lookup its = sum_list (map subtotal (map (newOrderItem lookup) its))"
  by (simp add: totalAmount_def foldl_add comp_def)

lemma newOrderItem_fields:
  "unitPrice (newOrderItem lookup d) = price (lookup (CreateOrderItemDto.productId d))"
  "quantity (newOrderItem lookup d) = CreateOrderItemDto.quantity d"
  "subtotal (newOrderItem lookup d)
     = price (lookup (CreateOrderItemDto.productId d)) * CreateOrderItemDto.quantity d"
  "productId (newOrderItem lookup d) = CreateOrderItemDto.productId d"
  by (simp_all add: newOrderItem_def Let_def)

lemma create_success:
  assumes "create_with sc lookup e dto w = (Inr order, w')"
  shows "\<exists>its. CreateOrderDto.items dto = Some its \<and> items order = map (newOrderItem lookup) its
           \<and> total order = totalAmount lookup its \<and> status order = pendiente
           \<and> \<not> isDeleted order
           \<and> id_col order = Some (freshId e)
           \<and> (\<exists>evs. trace w' = trace w @ Save order # evs @ [Email Confirmation order]
                 \<and> (evs = [] \<or> (\<exists>q p. evs = [Publish q p])))"
  using assms
  by (auto simp: create_with_def create_try_def io_defs Let_def publishOrderCreatedEvent_def
        publish_defs sendOrderConfirmationEmail_def
      split: if_splits option.splits sum.splits prod.splits exn.splits)

lemma consumer_acks:
  "failedStockConsumer (Some \<lparr>tag = t, parsed = Some data\<rparr>) w =
     (Inr (), w\<lparr>pending := pending w @ (case failedOrderId data of Inr (Some oid) \<Rightarrow> [oid] | _ \<Rightarrow> []),
               trace := trace w @ [Ack t]\<rparr>)"
  by (auto simp: failedStockConsumer_def consumer_def failedStockCallback_def io_defs
      split: sum.splits option.splits)

lemma consumer_general:
  "callback c w = (Inr (), w1) \<Longrightarrow>
   consumer callback (Some \<lparr>tag = t, parsed = Some c\<rparr>) w = (Inr (), w1\<lparr>trace := trace w1 @ [Ack t]\<rparr>)"
  by (simp add: consumer_def io_defs)

lemma callback_never_throws: "fst (failedStockCallback data w) = Inr ()"
  by (auto simp: failedStockCallback_def split: sum.splits option.splits)

lemma resume_never_throws: "fst (resume e w) = Inr ()"
  by (auto simp: resume_def cancelForStock_def io_defs Let_def sendOrderCancellationEmail_def
      split: list.splits option.splits prod.splits sum.splits)

lemma resume_completes_handler:
  "pending w = [] \<Longrightarrow>
   andThen (failedStockCallback data) (\<lambda>_. resume e) w = handleFailedStock e data w"
  by (auto simp: failedStockCallback_def resume_def handleFailedStock_def cancelForStock_def
        io_defs Let_def sendOrderCancellationEmail_def
      split: sum.splits option.splits)

lemma consumer_bad_json:
  "failedStockConsumer (Some \<lparr>tag = t, parsed = None\<rparr>) w = (Inl (Error ''SyntaxError''), w)"
  by (simp add: failedStockConsumer_def consumer_def io_defs)

lemma sleeps_append: "sleeps (xs @ ys) = sleeps xs @ sleeps ys"
  by (induction xs rule: sleeps.induct) simp_all

lemma attempts_append: "attempts (xs @ ys) = attempts xs @ attempts ys"
  by (induction xs rule: attempts.induct) simp_all

lemma attempted_trace:
  "trace (attempted out r w) =
     trace w @ Attempt r # (if out = Connects then [] else [LogError ''Error conectando a RabbitMQ''])"
  by (cases out) (simp_all add: attempted_def)

lemma connect_events:
  "r \<le> maxReconnectAttempts \<Longrightarrow>
   \<exists>evs k. fst (connect b r w) = Inr () \<and> trace (snd (connect b r w)) = trace w @ evs
      \<and> r + k \<le> maxReconnectAttempts
      \<and> sleeps evs = map delay [r..<r + k] \<and> attempts evs = [r..<Suc (r + k)]
      \<and> (\<forall>j<k. b (r + j) \<noteq> Connects)
      \<and> (b (r + k) = Connects \<longrightarrow> channel (snd (connect b r w)))
      \<and> (b (r + k) \<noteq> Connects \<longrightarrow> r + k = maxReconnectAttempts \<and> last evs = maxed)"
proof (induction b r w rule: connect.induct)
  case (1 broker retryCount w)
  show ?case
  proof (cases "broker retryCount = Connects")
    case True
    then show ?thesis
      apply (rule_tac x="[Attempt retryCount]" in exI)
      apply (rule_tac x=0 in exI)
      using 1(2) by (simp add: connect.simps[of broker retryCount w] attempted_trace attempted_def)
  next
    case nc: False
    show ?thesis
    proof (cases "retryCount < maxReconnectAttempts")
      case True
      let ?w2 = "snd (emit (Sleep (delay retryCount)) (attempted (broker retryCount) retryCount w))"
      let ?c = "connect broker (retryCount + 1) ?w2"
      from True have "retryCount + 1 \<le> maxReconnectAttempts" by simp
      from 1(1)[OF nc True this] obtain evs k where
        ih: "fst ?c = Inr ()"
          "trace (snd ?c) = trace ?w2 @ evs"
          "retryCount + 1 + k \<le> maxReconnectAttempts"
          "sleeps evs = map delay [retryCount + 1..<retryCount + 1 + k]"
          "attempts evs = [retryCount + 1..<Suc (retryCount + 1 + k)]"
          "\<forall>j<k. broker (retryCount + 1 + j) \<noteq> Connects"
          "broker (retryCount + 1 + k) = Connects \<longrightarrow> channel (snd ?c)"
          "broker (retryCount + 1 + k) \<noteq> Connects
             \<longrightarrow> retryCount + 1 + k = maxReconnectAttempts \<and> last evs = maxed"
        by blast
      let ?pre = "[Attempt retryCount, LogError ''Error conectando a RabbitMQ'',
                   Sleep (delay retryCount)]"
      have tr2: "trace ?w2 = trace w @ ?pre"
        using nc by (simp add: emit_def attempted_trace)
      have unf: "connect broker retryCount w = ?c"
        using nc True by (simp add: connect.simps[of broker retryCount w])
      have nonempty: "evs \<noteq> []" using ih(5) by auto
      have u1: "[retryCount..<retryCount + Suc k] = retryCount # [retryCount + 1..<retryCount + 1 + k]"
        by (simp add: upt_conv_Cons)
      have u2: "[retryCount..<Suc (retryCount + Suc k)]
                  = retryCount # [retryCount + 1..<Suc (retryCount + 1 + k)]"
        by (simp add: upt_conv_Cons)
      have c1: "trace (snd (connect broker retryCount w)) = trace w @ (?pre @ evs)"
        unfolding unf using ih(2) tr2 by simp
      have c2: "sleeps (?pre @ evs) = map delay [retryCount..<retryCount + Suc k]"
        unfolding u1 using ih(4) by simp
      have c3: "attempts (?pre @ evs) = [retryCount..<Suc (retryCount + Suc k)]"
        unfolding u2 using ih(5) by simp
      have c4: "\<forall>j<Suc k. broker (retryCount + j) \<noteq> Connects"
        using nc ih(6) by (auto simp: less_Suc_eq_0_disj)
      have c5: "broker (retryCount + Suc k) = Connects \<longrightarrow> channel (snd (connect broker retryCount w))"
        unfolding unf using ih(7) by simp
      have c6: "broker (retryCount + Suc k) \<noteq> Connects
                  \<longrightarrow> retryCount + Suc k = maxReconnectAttempts \<and> last (?pre @ evs) = maxed"
        using ih(8) nonempty by simp
      have c7: "retryCount + Suc k \<le> maxReconnectAttempts" using ih(3) by simp
      have c0: "fst (connect broker retryCount w) = Inr ()" unfolding unf by (rule ih(1))
      from c0 c1 c2 c3 c4 c5 c6 c7 show ?thesis by blast
    next
      case False
      with 1(2) have eq: "retryCount = maxReconnectAttempts" by simp
      have unf: "connect broker retryCount w
                   = emit maxed (attempted (broker retryCount) retryCount w)"
        using nc False by (simp add: connect.simps[of broker retryCount w] maxed_def)
      show ?thesis
        apply (rule_tac x="[Attempt retryCount, LogError ''Error conectando a RabbitMQ'', maxed]" in exI)
        apply (rule_tac x=0 in exI)
        unfolding unf using nc eq
        by (simp add: emit_def attempted_trace) (simp add: maxed_def)
    qed
  qed
qed

lemma connect_from_zero:
  "\<exists>evs k. fst (connect b 0 w) = Inr () \<and> trace (snd (connect b 0 w)) = trace w @ evs
      \<and> k \<le> 10 \<and> length (sleeps evs) = k
      \<and> sleeps evs = map delay [0..<k] \<and> attempts evs = [0..<Suc k]
      \<and> (\<forall>j<k. b j \<noteq> Connects)
      \<and> (b k = Connects \<longrightarrow> channel (snd (connect b 0 w)))
      \<and> (b k \<noteq> Connects \<longrightarrow> k = 10 \<and> last evs = maxed)"
proof -
  have "0 \<le> maxReconnectAttempts" by simp
  from connect_events[OF this, of b w] obtain evs k where
    h: "fst (connect b 0 w) = Inr ()" "trace (snd (connect b 0 w)) = trace w @ evs"
      "0 + k \<le> maxReconnectAttempts" "sleeps evs = map delay [0..<0 + k]"
      "attempts evs = [0..<Suc (0 + k)]"
      "\<forall>j<k. b (0 + j) \<noteq> Connects"
      "b (0 + k) = Connects \<longrightarrow> channel (snd (connect b 0 w))"
      "b (0 + k) \<noteq> Connects \<longrightarrow> 0 + k = maxReconnectAttempts \<and> last evs = maxed"
    by blast
  have len: "length (sleeps evs) = k" using h(4) by simp
  show ?thesis
    apply (rule exI[of _ evs])
    apply (rule exI[of _ k])
    using h len by (simp add: maxReconnectAttempts_def)
qed

lemma connect_all_fail:
  assumes "\<forall>n. b n \<noteq> Connects"
  shows "fst (connect b 0 w) = Inr ()
    \<and> attempts (trace (snd (connect b 0 w))) = attempts (trace w) @ [0..<11]
    \<and> sleeps (trace (snd (connect b 0 w))) = sleeps (trace w) @ map delay [0..<10]
    \<and> last (trace (snd (connect b 0 w))) = maxed"
proof -
  from connect_from_zero[of b w] obtain evs k where
    h: "fst (connect b 0 w) = Inr ()" "trace (snd (connect b 0 w)) = trace w @ evs"
      "sleeps evs = map delay [0..<k]" "attempts evs = [0..<Suc k]"
      "b k \<noteq> Connects \<longrightarrow> k = 10 \<and> last evs = maxed"
    by blast
  from h(5) assms have k: "k = 10" "last evs = maxed" by auto
  have ne: "evs \<noteq> []" using h(4) by auto
  show ?thesis using h(1-4) k ne by (simp add: sleeps_append attempts_append)
qed

lemma delays_value: "map delay [0..<10] = [1000, 2000, 4000, 8000, 16000, 30000, 30000, 30000, 30000, 30000]"
  by (simp add: delay_def upt_conv_Cons)

lemma world0_simps:
  "orders (world0 st) = [order0 st]" "config (world0 st) = queues" "channel (world0 st)"
  "trace (world0 st) = []" "pending (world0 st) = []"
  by (simp_all add: world0_def)

lemma env0_simps:
  "\<not> findThrows env0" "\<not> saveThrows env0" "\<not> sendThrows env0" "freshId env0 = ''o2''"
  by (simp_all add: env0_def)

lemma order0_simps:
  "status (order0 st) = st" "id_col (order0 st) = Some ''o1''" "\<not> isDeleted (order0 st)"
  by (simp_all add: order0_def)

lemma upsert_world0:
  "id_col row = Some ''o1'' \<Longrightarrow> upsert row [order0 st] = [row]"
  by (simp add: upsert_def order0_simps)

lemma selectOrder_order0: "selectOrder ''o1'' [order0 st] = Some (order0 st)"
  using selectOrder_world0[of st] by (simp add: world0_simps)

lemma queues_shipped: "queues ''RABBITMQ_QUEUE_ORDER_SHIPPED'' = Some ''order.shipped''"
  by (simp add: queues_def)

lemma failedOrderId_data0: "failedOrderId data0 = Inr (Some ''o1'')"
  by (simp add: failedOrderId_def data0_def truthy_def)

lemma create_returns:
  assumes "CreateOrderDto.items dto = Some its" "\<not> saveThrows e" "allAvailable (sc (Some its))"
  shows "\<exists>order w'. create_with sc lookup e dto w = (Inr order, w')
            \<and> selectOrder (freshId e) (orders w') = Some order"
  using assms
  by (auto simp: create_with_def create_try_def io_defs Let_def publishOrderCreatedEvent_def
        publish_defs sendOrderConfirmationEmail_def selectOrder_upsert
      split: if_splits option.splits sum.splits prod.splits exn.splits)

lemma dto8_two_items: "CreateOrderDto.items dto8 = Some two_items"
  by (simp add: dto8_def two_items_def)

lemma newOrderItem_two_items:
  "map subtotal (map (newOrderItem lookup) two_items) = [price (lookup ''p1'') * 2, price (lookup ''p2'')]"
  "map unitPrice (map (newOrderItem lookup) two_items) = [price (lookup ''p1''), price (lookup ''p2'')]"
  "map productId (map (newOrderItem lookup) two_items) = [''p1'', ''p2'']"
  "map quantity (map (newOrderItem lookup) two_items) = [2, 1]"
  "totalAmount lookup two_items = price (lookup ''p1'') * 2 + price (lookup ''p2'')"
  by (simp_all add: two_items_def totalAmount_sum newOrderItem_fields)

lemma create_two_items:
  assumes it: "CreateOrderDto.items dto = Some two_items"
    and ok: "allAvailable (stockCheck (CreateOrderDto.items dto))" "\<not> saveThrows e"
  shows "\<exists>order w'. create_with stockCheck lookup e dto w = (Inr order, w')
           \<and> total order = price (lookup ''p1'') * 2 + price (lookup ''p2'')
           \<and> length (items order) = 2
           \<and> map subtotal (items order) = [price (lookup ''p1'') * 2, price (lookup ''p2'')]
           \<and> map unitPrice (items order) = [price (lookup ''p1''), price (lookup ''p2'')]
           \<and> map quantity (items order) = [2, 1]
           \<and> map productId (items order) = [''p1'', ''p2'']
           \<and> selectOrder (freshId e) (orders w') = Some order"
proof -
  from ok(1) it have av: "allAvailable (stockCheck (Some two_items))" by simp
  from create_returns[where sc = stockCheck and lookup = lookup and w = w, OF it ok(2) av]
  obtain order w' where
    c: "create_with stockCheck lookup e dto w = (Inr order, w')"
       "selectOrder (freshId e) (orders w') = Some order"
    by blast
  from create_success[OF c(1)] it have
    s: "items order = map (newOrderItem lookup) two_items"
       "total order = totalAmount lookup two_items"
    by auto
  have l: "length (items order) = 2" unfolding s(1) by (simp add: two_items_def)
  show ?thesis
    apply (rule exI[of _ order])
    apply (rule exI[of _ w'])
    using c l newOrderItem_two_items[of lookup] by (simp add: s)
qed

lemma applied_fields:
  "id_col (applied e dto order) = id_col order"
  "status (applied e dto order) = UpdateOrderStatusDto.status dto"
  "isDeleted (applied e dto order) = isDeleted order"
  "items (applied e dto order) = items order"
  "total (applied e dto order) = total order"
  by (cases "UpdateOrderStatusDto.status dto"; simp add: applied_def)+

lemma updateStatus_applies:
  assumes sel: "selectOrder i (orders w) = Some order"
    and tab: "(status order, UpdateOrderStatusDto.status dto) \<in> set transition_table"
    and nf: "\<not> findThrows e" and ns: "\<not> saveThrows e"
    and env: "UpdateOrderStatusDto.status dto = enviado \<longrightarrow>
                truthy (UpdateOrderStatusDto.trackingNumber dto)
                \<and> canPublish e w ''RABBITMQ_QUEUE_ORDER_SHIPPED''"
    and ent: "UpdateOrderStatusDto.status dto = entregado \<longrightarrow>
                canPublish e w ''RABBITMQ_QUEUE_ORDER_DELIVERED''"
  shows "\<exists>w'. updateStatus e i dto w = (Inr (applied e dto order), w')
           \<and> orders w' = upsert (applied e dto order) (orders w)"
proof -
  have idc: "id_col order = Some i" using selectOrder_Some[OF sel] by simp
  have idc': "id_col (applied e dto order) = Some i" using idc by (simp add: applied_fields)
  note sk = save_keyed[OF ns idc']
  show ?thesis
  proof (cases "UpdateOrderStatusDto.status dto")
    case pendiente
    with tab show ?thesis by (simp add: transition_table_def)
  next
    case en_procesamiento
    have ap: "order\<lparr>status := en_procesamiento\<rparr> = applied e dto order"
      by (simp add: applied_def en_procesamiento)
    from sel tab nf en_procesamiento sk show ?thesis
      by (simp add: updateStatus_defs io_defs' validate_table ap
            sendOrderStatusUpdateEmail_def)
  next
    case enviado
    have ap: "order\<lparr>status := enviado,
                     trackingNumber := UpdateOrderStatusDto.trackingNumber dto,
                     shippedAt := Some (now e)\<rparr> = applied e dto order"
      by (simp add: applied_def enviado)
    from sel tab nf enviado env sk show ?thesis
      by (simp add: updateStatus_defs io_defs' validate_table ap publish_defs canPublish_def
            sendOrderStatusUpdateEmail_def)
  next
    case entregado
    have ap: "order\<lparr>status := entregado, deliveredAt := Some (now e)\<rparr> = applied e dto order"
      by (simp add: applied_def entregado)
    from sel tab nf entregado ent sk show ?thesis
      by (simp add: updateStatus_defs io_defs' validate_table ap publish_defs canPublish_def
            sendOrderStatusUpdateEmail_def)
  next
    case cancelado
    have ap: "order\<lparr>status := cancelado, cancelledAt := Some (now e)\<rparr> = applied e dto order"
      by (simp add: applied_def cancelado)
    from sel tab nf cancelado sk show ?thesis
      by (simp add: updateStatus_defs io_defs' validate_table ap
            sendOrderStatusUpdateEmail_def)
  qed
qed

lemma updateStatus_entity_without_tracking:
  assumes "selectOrder i (orders w) = Some order" "status order = en_procesamiento"
    "\<not> findThrows e" "UpdateOrderStatusDto.status dto = enviado"
    "\<not> truthy (UpdateOrderStatusDto.trackingNumber dto)"
  shows "updateStatus_entity e i dto w = Some (order\<lparr>status := enviado\<rparr>)"
  using assms
  by (simp add: updateStatus_entity_def updateStatus_defs io_defs validate_table
        transition_table_def)

lemma order0_status_update: "(order0 st)\<lparr>status := st'\<rparr> = order0 st'"
  by (simp add: order0_def)

lemma canPublish_world0:
  "canPublish env0 (world0 st) ''RABBITMQ_QUEUE_ORDER_SHIPPED''"
  by (simp add: canPublish_def world0_simps env0_simps queues_shipped truthy_def)

section \<open>The claims\<close>

text \<open>
  C1 fails for \<^verbatim>\<open>updateStatus\<close>. \<^verbatim>\<open>create\<close> saves and then publishes, but
  \<^verbatim>\<open>updateStatus\<close> publishes inside its \<^verbatim>\<open>switch\<close>, before \<^verbatim>\<open>orderRepository.save\<close>.
  At the order \<open>o1\<close> in \<^verbatim>\<open>en_procesamiento\<close>, the request for \<^verbatim>\<open>enviado\<close> with the
  tracking number \<open>TRK1\<close> leaves the trace publish, save, mail, in this order; and when
  the repository rejects the save, the event has been published although no row was
  written and the call fails.
\<close>

theorem updateStatus_publishes_before_saving:
  "updateStatus env0 ''o1'' ship_dto (world0 en_procesamiento) =
     (Inr (shipped env0 ship_dto (order0 en_procesamiento)),
      (world0 en_procesamiento)
        \<lparr>orders := [shipped env0 ship_dto (order0 en_procesamiento)],
         trace := [Publish ''order.shipped''
                     (OrderShipped (Some ''o1'') ''c1'' ''ana@example.com'' (Some ''TRK1'') [(''p1'', 2)]),
                   Save (shipped env0 ship_dto (order0 en_procesamiento)),
                   Email (StatusUpdate en_procesamiento)
                     (shipped env0 ship_dto (order0 en_procesamiento))]\<rparr>)
   \<and> updateStatus (env0\<lparr>saveThrows := True\<rparr>) ''o1'' ship_dto (world0 en_procesamiento) =
     (Inl (InternalServerErrorException ''Error al actualizar el estado del pedido''),
      (world0 en_procesamiento)
        \<lparr>trace := [Publish ''order.shipped''
                     (OrderShipped (Some ''o1'') ''c1'' ''ana@example.com'' (Some ''TRK1'') [(''p1'', 2)])]\<rparr>)"
proof -
  have pl: "shippedPayload (shipped e ship_dto (order0 en_procesamiento))
              = OrderShipped (Some ''o1'') ''c1'' ''ana@example.com'' (Some ''TRK1'') [(''p1'', 2)]" for e
    by (simp add: shippedPayload_def shipped_def ship_dto_def order0_def shippedItems_def item0_def)
  have sh: "shipped (env0\<lparr>saveThrows := True\<rparr>) ship_dto order = shipped env0 ship_dto order" for order
    by (simp add: shipped_def)
  have tn: "truthy (UpdateOrderStatusDto.trackingNumber ship_dto)"
    "UpdateOrderStatusDto.status ship_dto = enviado"
    by (simp_all add: ship_dto_def truthy_def)
  have idc: "id_col (shipped env0 ship_dto (order0 en_procesamiento)) = Some ''o1''"
    by (simp add: shipped_def order0_simps)
  have a: "updateStatus env0 ''o1'' ship_dto (world0 en_procesamiento) =
     (Inr (shipped env0 ship_dto (order0 en_procesamiento)),
      (world0 en_procesamiento)
        \<lparr>orders := [shipped env0 ship_dto (order0 en_procesamiento)],
         trace := [Publish ''order.shipped''
                     (OrderShipped (Some ''o1'') ''c1'' ''ana@example.com'' (Some ''TRK1'') [(''p1'', 2)]),
                   Save (shipped env0 ship_dto (order0 en_procesamiento)),
                   Email (StatusUpdate en_procesamiento)
                     (shipped env0 ship_dto (order0 en_procesamiento))]\<rparr>)"
    using updateStatus_enviado[of "''o1''" "world0 en_procesamiento" "order0 en_procesamiento"
        ship_dto env0 "''order.shipped''"]
    by (simp add: selectOrder_order0 world0_simps env0_simps order0_simps tn queues_shipped pl
          upsert_world0[OF idc])
  have b: "updateStatus (env0\<lparr>saveThrows := True\<rparr>) ''o1'' ship_dto (world0 en_procesamiento) =
     (Inl (InternalServerErrorException ''Error al actualizar el estado del pedido''),
      (world0 en_procesamiento)
        \<lparr>trace := [Publish ''order.shipped''
                     (OrderShipped (Some ''o1'') ''c1'' ''ana@example.com'' (Some ''TRK1'') [(''p1'', 2)])]\<rparr>)"
    using updateStatus_enviado[of "''o1''" "world0 en_procesamiento" "order0 en_procesamiento"
        ship_dto "env0\<lparr>saveThrows := True\<rparr>" "''order.shipped''"]
    by (simp add: selectOrder_order0 world0_simps env0_simps order0_simps tn queues_shipped pl sh)
  from a b show ?thesis by blast
qed

text \<open>
  By \<open>updateStatus_publish_precedes_save\<close> the same order of events holds for every
  successful transition to \<^verbatim>\<open>enviado\<close> or \<^verbatim>\<open>entregado\<close>. \<^verbatim>\<open>create\<close> saves first:
\<close>

lemma create_saves_before_publishing:
  assumes "create e dto w = (Inr order, w')"
  shows "\<exists>evs. trace w' = trace w @ Save order # evs @ [Email Confirmation order]
           \<and> (evs = [] \<or> (\<exists>q p. evs = [Publish q p]))"
  using create_success[OF assms[unfolded create_def]] by blast

text \<open>
  C2. For every pair of order statuses, \<^verbatim>\<open>validateStatusTransition\<close> succeeds exactly when
  the pair is an edge of the transition table, and throws the invalid-transition
  \<^verbatim>\<open>BadRequestException\<close> otherwise (also out of the terminal statuses, which have no edge).
  In \<^verbatim>\<open>updateStatus\<close>, a rejected pair leaves the world as it was: nothing is saved,
  published or mailed. Whenever \<^verbatim>\<open>updateStatus\<close> returns an order, the pair was an edge
  of the table, the returned order has exactly the requested status, and it is the row
  the repository now holds. And every request along an edge is applied: when the
  repository answers, and for \<^verbatim>\<open>enviado\<close> a tracking number is supplied and the queue of
  the event can be published to (for \<^verbatim>\<open>entregado\<close> its queue), \<^verbatim>\<open>updateStatus\<close> returns
  the loaded order with the requested status and the fields of that status assigned, and
  this order is the row that the repository now holds under the key.
\<close>

theorem validateStatusTransition_follows_table:
  "validateStatusTransition cur req =
     (if (cur, req) \<in> set transition_table then Inr ()
      else Inl (BadRequestException (InvalidTransition cur req)))
   \<and> (\<forall>t. (entregado, t) \<notin> set transition_table \<and> (cancelado, t) \<notin> set transition_table)
   \<and> (selectOrder i (orders w) = Some order \<and> \<not> findThrows e
        \<and> (status order, UpdateOrderStatusDto.status dto) \<notin> set transition_table
      \<longrightarrow> updateStatus e i dto w =
            (Inl (BadRequestException
                    (InvalidTransition (status order) (UpdateOrderStatusDto.status dto))), w))
   \<and> (updateStatus e i dto w = (Inr order', w')
      \<longrightarrow> (\<exists>order. selectOrder i (orders w) = Some order
             \<and> (status order, UpdateOrderStatusDto.status dto) \<in> set transition_table)
          \<and> status order' = UpdateOrderStatusDto.status dto
          \<and> selectOrder i (orders w') = Some order')
   \<and> (selectOrder i (orders w) = Some order
        \<and> (status order, UpdateOrderStatusDto.status dto) \<in> set transition_table
        \<and> \<not> findThrows e \<and> \<not> saveThrows e
        \<and> (UpdateOrderStatusDto.status dto = enviado
              \<longrightarrow> truthy (UpdateOrderStatusDto.trackingNumber dto)
                  \<and> canPublish e w ''RABBITMQ_QUEUE_ORDER_SHIPPED'')
        \<and> (UpdateOrderStatusDto.status dto = entregado
              \<longrightarrow> canPublish e w ''RABBITMQ_QUEUE_ORDER_DELIVERED'')
      \<longrightarrow> (\<exists>w''. updateStatus e i dto w = (Inr (applied e dto order), w'')
                \<and> orders w'' = upsert (applied e dto order) (orders w)
                \<and> selectOrder i (orders w'') = Some (applied e dto order))
          \<and> status (applied e dto order) = UpdateOrderStatusDto.status dto)"
proof (intro conjI impI allI)
  show "validateStatusTransition cur req =
     (if (cur, req) \<in> set transition_table then Inr ()
      else Inl (BadRequestException (InvalidTransition cur req)))"
    by (rule validate_table)
next
  fix t show "(entregado, t) \<notin> set transition_table"
    by (simp add: transition_table_def)
next
  fix t show "(cancelado, t) \<notin> set transition_table"
    by (simp add: transition_table_def)
next
  assume "selectOrder i (orders w) = Some order \<and> \<not> findThrows e
        \<and> (status order, UpdateOrderStatusDto.status dto) \<notin> set transition_table"
  then show "updateStatus e i dto w =
            (Inl (BadRequestException
                    (InvalidTransition (status order) (UpdateOrderStatusDto.status dto))), w)"
    using updateStatus_rejected by blast
next
  assume a: "updateStatus e i dto w = (Inr order', w')"
  from updateStatus_success[OF a]
  show "\<exists>order. selectOrder i (orders w) = Some order
             \<and> (status order, UpdateOrderStatusDto.status dto) \<in> set transition_table"
    by blast
  from updateStatus_success[OF a]
  show "status order' = UpdateOrderStatusDto.status dto" by blast
  from updateStatus_success[OF a]
  show "selectOrder i (orders w') = Some order'" by blast
next
  assume h: "selectOrder i (orders w) = Some order
        \<and> (status order, UpdateOrderStatusDto.status dto) \<in> set transition_table
        \<and> \<not> findThrows e \<and> \<not> saveThrows e
        \<and> (UpdateOrderStatusDto.status dto = enviado
              \<longrightarrow> truthy (UpdateOrderStatusDto.trackingNumber dto)
                  \<and> canPublish e w ''RABBITMQ_QUEUE_ORDER_SHIPPED'')
        \<and> (UpdateOrderStatusDto.status dto = entregado
              \<longrightarrow> canPublish e w ''RABBITMQ_QUEUE_ORDER_DELIVERED'')"
  then obtain w'' where
    u: "updateStatus e i dto w = (Inr (applied e dto order), w'')"
       "orders w'' = upsert (applied e dto order) (orders w)"
    using updateStatus_applies[of i w order dto e] by blast
  from h have "id_col order = Some i" "\<not> isDeleted order"
    using selectOrder_Some by blast+
  then have "selectOrder i (upsert (applied e dto order) (orders w)) = Some (applied e dto order)"
    by (intro selectOrder_upsert) (simp_all add: applied_fields)
  with u show "\<exists>w''. updateStatus e i dto w = (Inr (applied e dto order), w'')
                \<and> orders w'' = upsert (applied e dto order) (orders w)
                \<and> selectOrder i (orders w'') = Some (applied e dto order)"
    by auto
  show "status (applied e dto order) = UpdateOrderStatusDto.status dto"
    by (rule applied_fields)
qed

text \<open>
  The theorem at the order \<open>o1\<close>. In \<^verbatim>\<open>pendiente\<close>: the request for \<^verbatim>\<open>entregado\<close> is
  rejected and the world is untouched; the request for \<^verbatim>\<open>en_procesamiento\<close> returns the
  order in that status, saved. In \<^verbatim>\<open>en_procesamiento\<close>: the request for \<^verbatim>\<open>enviado\<close> with
  the tracking number \<open>TRK1\<close> returns the order in \<^verbatim>\<open>enviado\<close> with that tracking number,
  and it is the stored row.
\<close>

theorem validateStatusTransition_follows_table_witness:
  "selectOrder ''o1'' (orders (world0 pendiente)) = Some (order0 pendiente)
   \<and> \<not> findThrows env0
   \<and> (status (order0 pendiente), UpdateOrderStatusDto.status (dto0 entregado)) \<notin> set transition_table
   \<and> updateStatus env0 ''o1'' (dto0 entregado) (world0 pendiente)
       = (Inl (BadRequestException (InvalidTransition pendiente entregado)), world0 pendiente)
   \<and> updateStatus env0 ''o1'' (dto0 en_procesamiento) (world0 pendiente)
       = (Inr (order0 en_procesamiento),
          (world0 pendiente)\<lparr>orders := [order0 en_procesamiento],
             trace := [Save (order0 en_procesamiento),
                       Email (StatusUpdate pendiente) (order0 en_procesamiento)]\<rparr>)
   \<and> (pendiente, en_procesamiento) \<in> set transition_table
   \<and> selectOrder ''o1'' [order0 en_procesamiento] = Some (order0 en_procesamiento)
   \<and> (en_procesamiento, enviado) \<in> set transition_table
   \<and> \<not> saveThrows env0
   \<and> truthy (UpdateOrderStatusDto.trackingNumber ship_dto)
   \<and> canPublish env0 (world0 en_procesamiento) ''RABBITMQ_QUEUE_ORDER_SHIPPED''
   \<and> (\<exists>w''. updateStatus env0 ''o1'' ship_dto (world0 en_procesamiento)
                = (Inr (applied env0 ship_dto (order0 en_procesamiento)), w'')
            \<and> selectOrder ''o1'' (orders w'') = Some (applied env0 ship_dto (order0 en_procesamiento)))
   \<and> status (applied env0 ship_dto (order0 en_procesamiento)) = enviado
   \<and> trackingNumber (applied env0 ship_dto (order0 en_procesamiento)) = Some ''TRK1''"
proof -
  let ?w' = "(world0 pendiente)\<lparr>orders := [order0 en_procesamiento],
             trace := [Save (order0 en_procesamiento),
                       Email (StatusUpdate pendiente) (order0 en_procesamiento)]\<rparr>"
  have h: "selectOrder ''o1'' (orders (world0 pendiente)) = Some (order0 pendiente)
     \<and> \<not> findThrows env0
     \<and> (status (order0 pendiente), UpdateOrderStatusDto.status (dto0 entregado)) \<notin> set transition_table"
    by (simp add: selectOrder_world0 env0_simps order0_simps transition_table_def dto0_def)
  have st: "(order0 pendiente)\<lparr>status := en_procesamiento\<rparr> = order0 en_procesamiento"
    by (rule order0_status_update)
  have ev: "updateStatus env0 ''o1'' (dto0 en_procesamiento) (world0 pendiente)
     = (Inr (order0 en_procesamiento), ?w')"
    using save_keyed[of env0 "order0 en_procesamiento" "''o1''" "world0 pendiente"]
    by (simp add: updateStatus_defs io_defs' validate_table transition_table_def
          selectOrder_order0 world0_simps env0_simps order0_simps dto0_def st upsert_world0
          sendOrderStatusUpdateEmail_def)
  note t1 = validateStatusTransition_follows_table
      [of pendiente entregado "''o1''" "world0 pendiente" "order0 pendiente" env0 "dto0 entregado"]
  note t2 = validateStatusTransition_follows_table
      [of pendiente entregado "''o1''" "world0 pendiente" "order0 pendiente" env0
          "dto0 en_procesamiento" "order0 en_procesamiento" ?w']
  note t3 = validateStatusTransition_follows_table
      [of pendiente entregado "''o1''" "world0 en_procesamiento" "order0 en_procesamiento" env0
          ship_dto]
  from t1 h have r: "updateStatus env0 ''o1'' (dto0 entregado) (world0 pendiente)
       = (Inl (BadRequestException (InvalidTransition pendiente entregado)), world0 pendiente)"
    by (simp add: dto0_def order0_simps)
  from t2 ev have s: "(pendiente, en_procesamiento) \<in> set transition_table
     \<and> selectOrder ''o1'' [order0 en_procesamiento] = Some (order0 en_procesamiento)"
    by (simp add: dto0_def order0_simps selectOrder_order0 world0_simps)
  have sd: "UpdateOrderStatusDto.status ship_dto = enviado"
    "UpdateOrderStatusDto.trackingNumber ship_dto = Some ''TRK1''"
    by (simp_all add: ship_dto_def)
  have h3: "selectOrder ''o1'' (orders (world0 en_procesamiento)) = Some (order0 en_procesamiento)
        \<and> (status (order0 en_procesamiento), UpdateOrderStatusDto.status ship_dto) \<in> set transition_table
        \<and> \<not> findThrows env0 \<and> \<not> saveThrows env0
        \<and> (UpdateOrderStatusDto.status ship_dto = enviado
              \<longrightarrow> truthy (UpdateOrderStatusDto.trackingNumber ship_dto)
                  \<and> canPublish env0 (world0 en_procesamiento) ''RABBITMQ_QUEUE_ORDER_SHIPPED'')
        \<and> (UpdateOrderStatusDto.status ship_dto = entregado
              \<longrightarrow> canPublish env0 (world0 en_procesamiento) ''RABBITMQ_QUEUE_ORDER_DELIVERED'')"
    by (simp add: selectOrder_world0 order0_simps env0_simps sd transition_table_def truthy_def
          canPublish_world0)
  from t3 h3 have a: "(\<exists>w''. updateStatus env0 ''o1'' ship_dto (world0 en_procesamiento)
                = (Inr (applied env0 ship_dto (order0 en_procesamiento)), w'')
            \<and> selectOrder ''o1'' (orders w'') = Some (applied env0 ship_dto (order0 en_procesamiento)))
      \<and> status (applied env0 ship_dto (order0 en_procesamiento)) = UpdateOrderStatusDto.status ship_dto"
    by blast
  have tn: "trackingNumber (applied env0 ship_dto (order0 en_procesamiento)) = Some ''TRK1''"
    by (simp add: applied_def sd)
  have e3: "(en_procesamiento, enviado) \<in> set transition_table \<and> \<not> saveThrows env0
      \<and> truthy (UpdateOrderStatusDto.trackingNumber ship_dto)
      \<and> canPublish env0 (world0 en_procesamiento) ''RABBITMQ_QUEUE_ORDER_SHIPPED''"
    by (simp add: transition_table_def env0_simps sd truthy_def canPublish_world0)
  from h r ev s a tn e3 sd show ?thesis by simp
qed

text \<open>
  C3. The handler of \<^verbatim>\<open>order.failed.stock\<close> never throws. A message without an order id
  changes nothing. A message whose order is missing, soft-deleted or no longer
  \<^verbatim>\<open>pendiente\<close> is discarded: the world is as before (no row written, no mail). A
  message whose order is \<^verbatim>\<open>pendiente\<close> sets the status \<^verbatim>\<open>cancelado\<close>, the reason
  "Stock insuficiente" and the cancellation date, and saves the row, when the repository
  answers both calls.
\<close>

theorem handleFailedStock_compensates:
  "fst (handleFailedStock e data w) = Inr ()
   \<and> ((\<forall>oid. failedOrderId data \<noteq> Inr (Some oid)) \<longrightarrow> handleFailedStock e data w = (Inr (), w))
   \<and> (failedOrderId data = Inr (Some oid)
        \<and> (selectOrder oid (orders w) = None
            \<or> (\<exists>order. selectOrder oid (orders w) = Some order \<and> status order \<noteq> pendiente))
      \<longrightarrow> handleFailedStock e data w = (Inr (), w))
   \<and> (failedOrderId data = Inr (Some oid) \<and> selectOrder oid (orders w) = Some order
        \<and> status order = pendiente \<and> \<not> findThrows e \<and> \<not> saveThrows e
      \<longrightarrow> handleFailedStock e data w =
            (Inr (), w\<lparr>orders := upsert (stockCancelled e order) (orders w),
                       trace := trace w @ [Save (stockCancelled e order),
                                           Email Cancellation (stockCancelled e order)]\<rparr>)
          \<and> selectOrder oid (upsert (stockCancelled e order) (orders w)) = Some (stockCancelled e order)
          \<and> status (stockCancelled e order) = cancelado
          \<and> cancellationReason (stockCancelled e order) = Some ''Stock insuficiente'')"
proof (intro conjI impI)
  show "fst (handleFailedStock e data w) = Inr ()" by (rule handle_never_throws)
next
  assume "\<forall>oid. failedOrderId data \<noteq> Inr (Some oid)"
  then show "handleFailedStock e data w = (Inr (), w)" using handle_no_id by blast
next
  assume "failedOrderId data = Inr (Some oid)
        \<and> (selectOrder oid (orders w) = None
            \<or> (\<exists>order. selectOrder oid (orders w) = Some order \<and> status order \<noteq> pendiente))"
  then show "handleFailedStock e data w = (Inr (), w)" using handle_discards by blast
next
  assume a: "failedOrderId data = Inr (Some oid) \<and> selectOrder oid (orders w) = Some order
        \<and> status order = pendiente \<and> \<not> findThrows e \<and> \<not> saveThrows e"
  then show "handleFailedStock e data w =
            (Inr (), w\<lparr>orders := upsert (stockCancelled e order) (orders w),
                       trace := trace w @ [Save (stockCancelled e order),
                                           Email Cancellation (stockCancelled e order)]\<rparr>)"
    using handle_cancels by blast
  from a have "id_col order = Some oid" "\<not> isDeleted order"
    using selectOrder_Some by blast+
  then show "selectOrder oid (upsert (stockCancelled e order) (orders w)) = Some (stockCancelled e order)"
    by (intro selectOrder_upsert) (simp_all add: stockCancelled_def)
  show "status (stockCancelled e order) = cancelado"
    by (simp add: stockCancelled_def)
  show "cancellationReason (stockCancelled e order) = Some ''Stock insuficiente''"
    by (simp add: stockCancelled_def)
qed

text \<open>
  The theorem at three messages: one without envelope, one for \<open>o1\<close> already
  \<^verbatim>\<open>enviado\<close>, one for \<open>o1\<close> still \<^verbatim>\<open>pendiente\<close>.
\<close>

theorem handleFailedStock_compensates_witness:
  "failedOrderId (Some \<lparr>message = None\<rparr>) \<noteq> Inr (Some ''o1'')
   \<and> handleFailedStock env0 (Some \<lparr>message = None\<rparr>) (world0 pendiente) = (Inr (), world0 pendiente)
   \<and> failedOrderId data0 = Inr (Some ''o1'')
   \<and> selectOrder ''o1'' (orders (world0 enviado)) = Some (order0 enviado)
   \<and> status (order0 enviado) \<noteq> pendiente
   \<and> handleFailedStock env0 data0 (world0 enviado) = (Inr (), world0 enviado)
   \<and> selectOrder ''o1'' (orders (world0 pendiente)) = Some (order0 pendiente)
   \<and> status (order0 pendiente) = pendiente \<and> \<not> findThrows env0 \<and> \<not> saveThrows env0
   \<and> handleFailedStock env0 data0 (world0 pendiente) =
        (Inr (), (world0 pendiente)
                   \<lparr>orders := [stockCancelled env0 (order0 pendiente)],
                    trace := [Save (stockCancelled env0 (order0 pendiente)),
                              Email Cancellation (stockCancelled env0 (order0 pendiente))]\<rparr>)
   \<and> cancellationReason (stockCancelled env0 (order0 pendiente)) = Some ''Stock insuficiente''"
proof -
  have n: "\<forall>oid. failedOrderId (Some \<lparr>message = None\<rparr>) \<noteq> Inr (Some oid)"
    by (simp add: failedOrderId_def)
  have idc: "id_col (stockCancelled env0 (order0 pendiente)) = Some ''o1''"
    by (simp add: stockCancelled_def order0_simps)
  note t1 = handleFailedStock_compensates[of env0 "Some \<lparr>message = None\<rparr>" "world0 pendiente"]
  note t2 = handleFailedStock_compensates[of env0 data0 "world0 enviado" "''o1''"]
  note t3 = handleFailedStock_compensates[of env0 data0 "world0 pendiente" "''o1''" "order0 pendiente"]
  from t1 n have a: "handleFailedStock env0 (Some \<lparr>message = None\<rparr>) (world0 pendiente) = (Inr (), world0 pendiente)"
    by blast
  have h2: "selectOrder ''o1'' (orders (world0 enviado)) = Some (order0 enviado)
      \<and> status (order0 enviado) \<noteq> pendiente"
    by (simp add: selectOrder_world0 order0_simps)
  from t2 h2 failedOrderId_data0
  have b: "handleFailedStock env0 data0 (world0 enviado) = (Inr (), world0 enviado)"
    by blast
  have h3: "selectOrder ''o1'' (orders (world0 pendiente)) = Some (order0 pendiente)
   \<and> status (order0 pendiente) = pendiente \<and> \<not> findThrows env0 \<and> \<not> saveThrows env0"
    by (simp add: selectOrder_world0 order0_simps env0_simps)
  from t3 h3 failedOrderId_data0
  have c: "handleFailedStock env0 data0 (world0 pendiente) =
        (Inr (), (world0 pendiente)
                   \<lparr>orders := upsert (stockCancelled env0 (order0 pendiente)) (orders (world0 pendiente)),
                    trace := trace (world0 pendiente) @ [Save (stockCancelled env0 (order0 pendiente)),
                              Email Cancellation (stockCancelled env0 (order0 pendiente))]\<rparr>)
     \<and> cancellationReason (stockCancelled env0 (order0 pendiente)) = Some ''Stock insuficiente''"
    by blast
  from n a b c h2 h3 failedOrderId_data0 show ?thesis
    by (simp add: world0_simps upsert_world0[OF idc])
qed

text \<open>
  C4. When the stock check of a create command answers \<^verbatim>\<open>allAvailable: false\<close>, creation
  stops there: the call throws the \<^verbatim>\<open>BadRequestException\<close> that carries the list of
  unavailable items as the stock check returned it, and the world is as before, so no
  order and no item has been saved, nothing published and nothing mailed.
\<close>

theorem create_aborts_on_insufficient_stock:
  "\<not> allAvailable (stockCheck (CreateOrderDto.items dto)) \<Longrightarrow>
   create_with stockCheck lookup e dto w =
     (Inl (BadRequestException
             (InsufficientStock (unavailable (stockCheck (CreateOrderDto.items dto))))), w)"
  by (simp add: create_with_def create_try_def io_defs)

text \<open>The theorem at a stock check that reports a shortage of \<open>p1\<close>.\<close>

theorem create_aborts_on_insufficient_stock_witness:
  "\<not> allAvailable (noStock (CreateOrderDto.items dto8))
   \<and> create_with noStock getProductDetails env0 dto8 (world0 pendiente) =
       (Inl (BadRequestException
               (InsufficientStock [\<lparr>u_productId = ''p1'', requested = 2, available = 0\<rparr>])),
        world0 pendiente)"
proof -
  have h: "\<not> allAvailable (noStock (CreateOrderDto.items dto8))"
    by (simp add: noStock_def)
  from create_aborts_on_insufficient_stock
         [where stockCheck = noStock and lookup = getProductDetails and dto = dto8 and e = env0
            and w = "world0 pendiente"] h
  show ?thesis by (simp add: noStock_def)
qed

text \<open>
  C5 as stated fails on "before any state mutation of the order": \<^verbatim>\<open>updateStatus\<close>
  assigns the requested status to the loaded order (line 235) before the \<^verbatim>\<open>switch\<close>
  checks the tracking number (line 240). At the order \<open>o1\<close> in \<^verbatim>\<open>en_procesamiento\<close> and
  a request for \<^verbatim>\<open>enviado\<close> without tracking number, the call throws the tracking-number
  \<^verbatim>\<open>BadRequestException\<close> while the entity object it holds has the status
  \<^verbatim>\<open>enviado\<close>; the world, and so the stored row, is as before.
\<close>

theorem updateStatus_assigns_before_tracking_check:
  "updateStatus env0 ''o1'' (dto0 enviado) (world0 en_procesamiento)
     = (Inl (BadRequestException TrackingRequired), world0 en_procesamiento)
   \<and> selectOrder ''o1'' (orders (world0 en_procesamiento)) = Some (order0 en_procesamiento)
   \<and> status (order0 en_procesamiento) = en_procesamiento
   \<and> updateStatus_entity env0 ''o1'' (dto0 enviado) (world0 en_procesamiento)
       = Some (order0 enviado)
   \<and> status (order0 enviado) = enviado"
proof -
  have d: "UpdateOrderStatusDto.status (dto0 enviado) = enviado"
    "\<not> truthy (UpdateOrderStatusDto.trackingNumber (dto0 enviado))"
    by (simp_all add: dto0_def truthy_def)
  have a: "updateStatus env0 ''o1'' (dto0 enviado) (world0 en_procesamiento)
     = (Inl (BadRequestException TrackingRequired), world0 en_procesamiento)"
    using d
    by (simp add: updateStatus_defs io_defs validate_table transition_table_def
          selectOrder_order0 world0_simps env0_simps order0_simps)
  have b: "updateStatus_entity env0 ''o1'' (dto0 enviado) (world0 en_procesamiento)
       = Some (order0 enviado)"
    using updateStatus_entity_without_tracking
            [of "''o1''" "world0 en_procesamiento" "order0 en_procesamiento" env0 "dto0 enviado"] d
    by (simp add: selectOrder_world0 order0_simps env0_simps order0_status_update)
  from a b show ?thesis by (simp add: selectOrder_world0 order0_simps)
qed

text \<open>
  C5, amended. A request for \<^verbatim>\<open>enviado\<close> on an order in \<^verbatim>\<open>en_procesamiento\<close> without a
  tracking number (missing or empty) throws the tracking-number \<^verbatim>\<open>BadRequestException\<close>
  before any persistence call: the world is as before, so no \<^verbatim>\<open>save\<close> has been called,
  nothing was published or mailed, and the stored order is unchanged.
\<close>

theorem updateStatus_requires_tracking_number:
  "selectOrder i (orders w) = Some order \<and> status order = en_procesamiento \<and> \<not> findThrows e
     \<and> UpdateOrderStatusDto.status dto = enviado
     \<and> (UpdateOrderStatusDto.trackingNumber dto = None
         \<or> UpdateOrderStatusDto.trackingNumber dto = Some [])
   \<longrightarrow> updateStatus e i dto w = (Inl (BadRequestException TrackingRequired), w)"
  by (auto simp: updateStatus_defs io_defs validate_table transition_table_def
        truthy_def)

text \<open>The theorem at the order \<open>o1\<close> in \<^verbatim>\<open>en_procesamiento\<close>, with no tracking number.\<close>

theorem updateStatus_requires_tracking_number_witness:
  "selectOrder ''o1'' (orders (world0 en_procesamiento)) = Some (order0 en_procesamiento)
   \<and> status (order0 en_procesamiento) = en_procesamiento \<and> \<not> findThrows env0
   \<and> UpdateOrderStatusDto.status (dto0 enviado) = enviado
   \<and> UpdateOrderStatusDto.trackingNumber (dto0 enviado) = None
   \<and> updateStatus env0 ''o1'' (dto0 enviado) (world0 en_procesamiento)
        = (Inl (BadRequestException TrackingRequired), world0 en_procesamiento)"
proof -
  have h: "selectOrder ''o1'' (orders (world0 en_procesamiento)) = Some (order0 en_procesamiento)
     \<and> status (order0 en_procesamiento) = en_procesamiento \<and> \<not> findThrows env0
     \<and> UpdateOrderStatusDto.status (dto0 enviado) = enviado
     \<and> UpdateOrderStatusDto.trackingNumber (dto0 enviado) = None"
    by (simp add: selectOrder_world0 order0_simps env0_simps dto0_def)
  from updateStatus_requires_tracking_number
         [of "''o1''" "world0 en_procesamiento" "order0 en_procesamiento" env0 "dto0 enviado"] h
  show ?thesis by blast
qed

text \<open>
  C6. On an order that \<^verbatim>\<open>findOne\<close> selects (existing, not soft-deleted): in
  \<^verbatim>\<open>entregado\<close> or \<^verbatim>\<open>cancelado\<close>, \<^verbatim>\<open>cancel\<close> always throws and the world is as
  before (the exception is the \<^verbatim>\<open>BadRequestException\<close> naming the status whenever the
  repository answers); in \<^verbatim>\<open>pendiente\<close>, \<^verbatim>\<open>en_procesamiento\<close> or \<^verbatim>\<open>enviado\<close>, when the
  repository answers both calls, \<^verbatim>\<open>cancel\<close> returns the order with status
  \<^verbatim>\<open>cancelado\<close>, \<^verbatim>\<open>cancelledAt\<close> set to the current date and a non-empty reason, which
  is the supplied one when it is non-empty and "Cancelado por el usuario" otherwise; the
  returned order is the saved row.
\<close>

theorem cancel_eligibility:
  "(selectOrder i (orders w) = Some order \<and> (status order = entregado \<or> status order = cancelado)
      \<longrightarrow> (\<exists>x. cancel e i dto w = (Inl x, w))
          \<and> (\<not> findThrows e
               \<longrightarrow> cancel e i dto w = (Inl (BadRequestException (CannotCancel (status order))), w)))
   \<and> (selectOrder i (orders w) = Some order
        \<and> (status order = pendiente \<or> status order = en_procesamiento \<or> status order = enviado)
        \<and> \<not> findThrows e \<and> \<not> saveThrows e
      \<longrightarrow> cancel e i dto w =
            (Inr (cancelled e dto order),
             w\<lparr>orders := upsert (cancelled e dto order) (orders w),
               trace := trace w @ [Save (cancelled e dto order),
                                   Email Cancellation (cancelled e dto order)]\<rparr>)
          \<and> selectOrder i (upsert (cancelled e dto order) (orders w)) = Some (cancelled e dto order)
          \<and> status (cancelled e dto order) = cancelado
          \<and> cancelledAt (cancelled e dto order) = Some (now e)
          \<and> (\<exists>r. cancellationReason (cancelled e dto order) = Some r \<and> r \<noteq> [])
          \<and> cancellationReason (cancelled e dto order) =
              (case CancelOrderDto.cancellationReason dto of
                 None \<Rightarrow> Some ''Cancelado por el usuario''
               | Some r \<Rightarrow> if r = [] then Some ''Cancelado por el usuario'' else Some r))"
proof (intro conjI impI)
  assume a: "selectOrder i (orders w) = Some order \<and> (status order = entregado \<or> status order = cancelado)"
  then show "\<exists>x. cancel e i dto w = (Inl x, w)"
    using cancel_refused[of i w order e dto] by blast
  assume "\<not> findThrows e"
  with a show "cancel e i dto w = (Inl (BadRequestException (CannotCancel (status order))), w)"
    using cancel_refused[of i w order e dto] by simp
next
  assume a: "selectOrder i (orders w) = Some order
        \<and> (status order = pendiente \<or> status order = en_procesamiento \<or> status order = enviado)
        \<and> \<not> findThrows e \<and> \<not> saveThrows e"
  then show "cancel e i dto w =
            (Inr (cancelled e dto order),
             w\<lparr>orders := upsert (cancelled e dto order) (orders w),
               trace := trace w @ [Save (cancelled e dto order),
                                   Email Cancellation (cancelled e dto order)]\<rparr>)"
    using cancel_accepted by blast
  from a have "id_col order = Some i" "\<not> isDeleted order"
    using selectOrder_Some by blast+
  then show "selectOrder i (upsert (cancelled e dto order) (orders w)) = Some (cancelled e dto order)"
    by (intro selectOrder_upsert) (simp_all add: cancelled_fields)
  show "status (cancelled e dto order) = cancelado" by (rule cancelled_fields)
  show "cancelledAt (cancelled e dto order) = Some (now e)" by (rule cancelled_fields)
  show "\<exists>r. cancellationReason (cancelled e dto order) = Some r \<and> r \<noteq> []"
    by (rule cancelled_fields)
  show "cancellationReason (cancelled e dto order) =
              (case CancelOrderDto.cancellationReason dto of
                 None \<Rightarrow> Some ''Cancelado por el usuario''
               | Some r \<Rightarrow> if r = [] then Some ''Cancelado por el usuario'' else Some r)"
    by (simp add: cancelled_def truthy_def split: option.splits)
qed

text \<open>
  The theorem at \<open>o1\<close> with no reason supplied: refused when \<^verbatim>\<open>entregado\<close>, cancelled
  with the default reason when \<^verbatim>\<open>enviado\<close>.
\<close>

theorem cancel_eligibility_witness:
  "selectOrder ''o1'' (orders (world0 entregado)) = Some (order0 entregado)
   \<and> status (order0 entregado) = entregado \<and> \<not> findThrows env0
   \<and> cancel env0 ''o1'' cancel0 (world0 entregado)
        = (Inl (BadRequestException (CannotCancel entregado)), world0 entregado)
   \<and> selectOrder ''o1'' (orders (world0 enviado)) = Some (order0 enviado)
   \<and> status (order0 enviado) = enviado \<and> \<not> saveThrows env0
   \<and> cancel env0 ''o1'' cancel0 (world0 enviado)
        = (Inr (cancelled env0 cancel0 (order0 enviado)),
           (world0 enviado)
             \<lparr>orders := [cancelled env0 cancel0 (order0 enviado)],
              trace := [Save (cancelled env0 cancel0 (order0 enviado)),
                        Email Cancellation (cancelled env0 cancel0 (order0 enviado))]\<rparr>)
   \<and> status (cancelled env0 cancel0 (order0 enviado)) = cancelado
   \<and> cancellationReason (cancelled env0 cancel0 (order0 enviado)) = Some ''Cancelado por el usuario''"
proof -
  have h1: "selectOrder ''o1'' (orders (world0 entregado)) = Some (order0 entregado)
     \<and> (status (order0 entregado) = entregado \<or> status (order0 entregado) = cancelado)"
    "\<not> findThrows env0"
    by (simp_all add: selectOrder_world0 order0_simps env0_simps)
  have h2: "selectOrder ''o1'' (orders (world0 enviado)) = Some (order0 enviado)
     \<and> (status (order0 enviado) = pendiente \<or> status (order0 enviado) = en_procesamiento
         \<or> status (order0 enviado) = enviado)
     \<and> \<not> findThrows env0 \<and> \<not> saveThrows env0"
    by (simp add: selectOrder_world0 order0_simps env0_simps)
  have idc: "id_col (cancelled env0 cancel0 (order0 enviado)) = Some ''o1''"
    by (simp add: cancelled_fields order0_simps)
  note t1 = cancel_eligibility[of "''o1''" "world0 entregado" "order0 entregado" env0 cancel0]
  note t2 = cancel_eligibility[of "''o1''" "world0 enviado" "order0 enviado" env0 cancel0]
  from t1 h1 have a: "cancel env0 ''o1'' cancel0 (world0 entregado)
        = (Inl (BadRequestException (CannotCancel (status (order0 entregado)))), world0 entregado)"
    by blast
  from t2 h2 have b: "cancel env0 ''o1'' cancel0 (world0 enviado) =
            (Inr (cancelled env0 cancel0 (order0 enviado)),
             (world0 enviado)\<lparr>orders := upsert (cancelled env0 cancel0 (order0 enviado)) (orders (world0 enviado)),
               trace := trace (world0 enviado) @ [Save (cancelled env0 cancel0 (order0 enviado)),
                                   Email Cancellation (cancelled env0 cancel0 (order0 enviado))]\<rparr>)
      \<and> status (cancelled env0 cancel0 (order0 enviado)) = cancelado
      \<and> cancellationReason (cancelled env0 cancel0 (order0 enviado)) =
              (case CancelOrderDto.cancellationReason cancel0 of
                 None \<Rightarrow> Some ''Cancelado por el usuario''
               | Some r \<Rightarrow> if r = [] then Some ''Cancelado por el usuario'' else Some r)"
    by blast
  from b have b1: "cancel env0 ''o1'' cancel0 (world0 enviado)
        = (Inr (cancelled env0 cancel0 (order0 enviado)),
           (world0 enviado)
             \<lparr>orders := [cancelled env0 cancel0 (order0 enviado)],
              trace := [Save (cancelled env0 cancel0 (order0 enviado)),
                        Email Cancellation (cancelled env0 cancel0 (order0 enviado))]\<rparr>)"
    by (simp add: world0_simps upsert_world0[OF idc])
  from b have b2: "cancellationReason (cancelled env0 cancel0 (order0 enviado))
                     = Some ''Cancelado por el usuario''"
    by (simp add: cancel0_def)
  from b have b3: "status (cancelled env0 cancel0 (order0 enviado)) = cancelado"
    by blast
  from a b1 b2 b3 h1 h2 show ?thesis
    by (simp add: order0_simps)
qed

text \<open>
  C7 as stated fails: when every attempt fails, \<^verbatim>\<open>connect\<close> makes eleven attempts (retry
  counts 0 to 10), logs that the maximum was reached and returns normally; no error reaches
  the caller.
\<close>

theorem connect_exhausted_returns_normally:
  "fst (connect unreachable 0 (world0 pendiente)) = Inr ()
   \<and> attempts (trace (snd (connect unreachable 0 (world0 pendiente))))
       = [0, 1, 2, 3, 4, 5, 6, 7, 8, 9, 10]
   \<and> length (attempts (trace (snd (connect unreachable 0 (world0 pendiente))))) = 11
   \<and> sleeps (trace (snd (connect unreachable 0 (world0 pendiente))))
       = [1000, 2000, 4000, 8000, 16000, 30000, 30000, 30000, 30000, 30000]
   \<and> last (trace (snd (connect unreachable 0 (world0 pendiente)))) = maxed"
proof -
  have "\<forall>n. unreachable n \<noteq> Connects" by (simp add: unreachable_def)
  from connect_all_fail[OF this, of "world0 pendiente"] delays_value
  show ?thesis by (simp add: world0_simps upt_conv_Cons)
qed

text \<open>
  C7, amended. \<^verbatim>\<open>connect()\<close> always returns normally. Its attempts carry the retry counts
  0, 1, ..., k with k at most 10, so there are at most 10 retries (11 attempts); the
  delay slept after the failed attempt with retry count n is min(1000 * 2^n, 30000)
  milliseconds; every attempt before the last one failed. If the last attempt succeeds the
  channel is set; if it fails, ten retries were made and the last thing \<^verbatim>\<open>connect\<close> did
  was to log that the maximum of retries was reached.
\<close>

theorem connect_backoff:
  "\<exists>evs. fst (connect broker 0 w) = Inr ()
     \<and> trace (snd (connect broker 0 w)) = trace w @ evs
     \<and> length (sleeps evs) \<le> 10
     \<and> sleeps evs = map (\<lambda>n. min (1000 * 2 ^ n) 30000) [0..<length (sleeps evs)]
     \<and> attempts evs = [0..<Suc (length (sleeps evs))]
     \<and> (\<forall>n<length (sleeps evs). broker n \<noteq> Connects)
     \<and> (broker (length (sleeps evs)) = Connects \<longrightarrow> channel (snd (connect broker 0 w)))
     \<and> (broker (length (sleeps evs)) \<noteq> Connects
          \<longrightarrow> length (sleeps evs) = 10 \<and> last evs = maxed)"
proof -
  from connect_from_zero[of broker w] obtain evs k where
    h: "fst (connect broker 0 w) = Inr ()" "trace (snd (connect broker 0 w)) = trace w @ evs"
      "k \<le> 10" "length (sleeps evs) = k" "sleeps evs = map delay [0..<k]" "attempts evs = [0..<Suc k]"
      "\<forall>j<k. broker j \<noteq> Connects"
      "broker k = Connects \<longrightarrow> channel (snd (connect broker 0 w))"
      "broker k \<noteq> Connects \<longrightarrow> k = 10 \<and> last evs = maxed"
    by blast
  have del: "delay = (\<lambda>n. min (1000 * 2 ^ n) 30000)" by (rule ext) (simp add: delay_def)
  show ?thesis
    apply (rule exI[of _ evs])
    unfolding h(4) del[symmetric]
    using h by blast
qed

text \<open>
  The theorem at a broker that accepts the third attempt (two delays, of 1000 and 2000
  milliseconds, three attempts, and the channel is set) and at a broker that refuses every
  attempt (ten delays, and the last event is the log line of the exhausted retries).
\<close>

theorem connect_backoff_witness:
  "fst (connect third 0 (world0 pendiente)) = Inr ()
   \<and> sleeps (trace (snd (connect third 0 (world0 pendiente)))) = [1000, 2000]
   \<and> attempts (trace (snd (connect third 0 (world0 pendiente)))) = [0, 1, 2]
   \<and> third 0 \<noteq> Connects \<and> third 1 \<noteq> Connects \<and> third 2 = Connects
   \<and> channel (snd (connect third 0 (world0 pendiente)))
   \<and> unreachable 10 \<noteq> Connects
   \<and> length (sleeps (trace (snd (connect unreachable 0 (world0 pendiente))))) = 10
   \<and> last (trace (snd (connect unreachable 0 (world0 pendiente)))) = maxed"
proof -
  from connect_backoff[of third "world0 pendiente"] obtain evs where
    h: "fst (connect third 0 (world0 pendiente)) = Inr ()"
      "trace (snd (connect third 0 (world0 pendiente))) = trace (world0 pendiente) @ evs"
      "length (sleeps evs) \<le> 10"
      "sleeps evs = map (\<lambda>n. min (1000 * 2 ^ n) 30000) [0..<length (sleeps evs)]"
      "attempts evs = [0..<Suc (length (sleeps evs))]"
      "\<forall>n<length (sleeps evs). third n \<noteq> Connects"
      "third (length (sleeps evs)) = Connects \<longrightarrow> channel (snd (connect third 0 (world0 pendiente)))"
      "third (length (sleeps evs)) \<noteq> Connects \<longrightarrow> length (sleeps evs) = 10 \<and> last evs = maxed"
    by blast
  have "\<not> 2 < length (sleeps evs)" using h(6) by (auto simp: third_def)
  moreover have "length (sleeps evs) \<noteq> 0" "length (sleeps evs) \<noteq> 1"
    using h(8) by (auto simp: third_def)
  ultimately have k: "length (sleeps evs) = 2" by linarith
  have s: "sleeps evs = [1000, 2000]"
    using h(4) unfolding k by (simp add: upt_conv_Cons)
  have a: "attempts evs = [0, 1, 2]"
    using h(5) unfolding k by (simp add: upt_conv_Cons)
  have c: "channel (snd (connect third 0 (world0 pendiente)))"
    using h(7) unfolding k by (simp add: third_def)
  from connect_backoff[of unreachable "world0 pendiente"] obtain evs' where
    u: "trace (snd (connect unreachable 0 (world0 pendiente))) = trace (world0 pendiente) @ evs'"
      "attempts evs' = [0..<Suc (length (sleeps evs'))]"
      "unreachable (length (sleeps evs')) \<noteq> Connects
         \<longrightarrow> length (sleeps evs') = 10 \<and> last evs' = maxed"
    by blast
  from u(3) have u': "length (sleeps evs') = 10" "last evs' = maxed"
    by (simp_all add: unreachable_def)
  from h(1,2) s a c u(1) u' show ?thesis
    by (simp add: world0_simps third_def unreachable_def)
qed



text \<open>
  With the placeholder that the repository has for \<^verbatim>\<open>getProductDetails\<close>, every product
  costs 10000, and the same command gives the total 30000 and the subtotals 20000 and
  10000.
\<close>

lemma create_placeholder_price:
  "\<exists>order w'. create env0 dto8 (world0 pendiente) = (Inr order, w')
      \<and> total order = 30000 \<and> map subtotal (items order) = [20000, 10000]"
proof -
  have av: "allAvailable (validateStock (CreateOrderDto.items dto8))"
    by (simp add: validateStock_def dto8_two_items)
  from create_two_items[where lookup = getProductDetails and w = "world0 pendiente"
         and dto = dto8 and stockCheck = validateStock and e = env0,
         OF dto8_two_items av env0_simps(2)]
  show ?thesis
    unfolding create_def by (auto simp: getProductDetails_def)
qed

text \<open>
  C9. \<^verbatim>\<open>validateStock\<close> answers \<^verbatim>\<open>{allAvailable: true, unavailable: []}\<close> for every list
  of items, and also when the list is missing and its \<^verbatim>\<open>try\<close> block throws. So
  \<^verbatim>\<open>create\<close> never throws a \<^verbatim>\<open>BadRequestException\<close>, the only exception of its
  insufficient-stock branch: that branch is unreachable.
\<close>

theorem validateStock_always_available:
  "validateStock its = \<lparr>allAvailable = True, unavailable = []\<rparr>
   \<and> (\<forall>r. fst (create e dto w) \<noteq> Inl (BadRequestException r))"
  by (auto simp: validateStock_def create_def create_with_def create_try_def io_defs Let_def
        publishOrderCreatedEvent_def sendOrderConfirmationEmail_def
        split: option.splits sum.splits prod.splits exn.splits)

text \<open>
  C10 as stated fails: a delivery whose body is not JSON makes \<^verbatim>\<open>JSON.parse\<close> throw
  inside the function given to \<^verbatim>\<open>channel.consume\<close>, before the callback and before
  \<^verbatim>\<open>channel.ack\<close>: the message is not acknowledged and the exception leaves the consumer.
\<close>

theorem consumer_drops_unparsable_message:
  "failedStockConsumer (Some \<lparr>tag = 7, parsed = None\<rparr>) (world0 pendiente)
     = (Inl (Error ''SyntaxError''), world0 pendiente)
   \<and> Ack 7 \<notin> set (trace (snd (failedStockConsumer (Some \<lparr>tag = 7, parsed = None\<rparr>)
                                  (world0 pendiente))))"
  by (simp add: consumer_bad_json world0_simps)

text \<open>
  C10, amended. Every delivery whose body parses as JSON is acknowledged as soon as the
  callback has been called and has returned, without awaiting the handler: after the
  consumer function has run for the handler that \<^verbatim>\<open>onModuleInit\<close> registers, the only
  event is the acknowledgement, the orders are untouched and a handler that goes on to
  load an order is still suspended. For any callback that returns, the acknowledgement is
  the event right after what the call itself did. The registered callback never throws,
  neither when it is called nor when it is resumed, whatever the repository does.
\<close>

theorem consumer_acks_before_completion:
  "failedStockConsumer (Some \<lparr>tag = t, parsed = Some data\<rparr>) w =
     (Inr (), w\<lparr>pending := pending w @ (case failedOrderId data of
                                           Inr (Some oid) \<Rightarrow> [oid] | _ \<Rightarrow> []),
               trace := trace w @ [Ack t]\<rparr>)
   \<and> (callback c w = (Inr (), w1)
        \<longrightarrow> consumer callback (Some \<lparr>tag = t, parsed = Some c\<rparr>) w
              = (Inr (), w1\<lparr>trace := trace w1 @ [Ack t]\<rparr>))
   \<and> fst (failedStockCallback data w) = Inr ()
   \<and> fst (resume e w) = Inr ()"
proof (intro conjI impI)
  show "failedStockConsumer (Some \<lparr>tag = t, parsed = Some data\<rparr>) w =
     (Inr (), w\<lparr>pending := pending w @ (case failedOrderId data of
                                           Inr (Some oid) \<Rightarrow> [oid] | _ \<Rightarrow> []),
               trace := trace w @ [Ack t]\<rparr>)"
    by (rule consumer_acks)
  show "fst (failedStockCallback data w) = Inr ()" by (rule callback_never_throws)
  show "fst (resume e w) = Inr ()" by (rule resume_never_throws)
next
  assume "callback c w = (Inr (), w1)"
  then show "consumer callback (Some \<lparr>tag = t, parsed = Some c\<rparr>) w
              = (Inr (), w1\<lparr>trace := trace w1 @ [Ack t]\<rparr>)"
    by (rule consumer_general)
qed

text \<open>
  The theorem at a message for the order \<open>o1\<close>: it is acknowledged while its handler is
  suspended and \<open>o1\<close> is still \<^verbatim>\<open>pendiente\<close>; the handler cancels the order when it is
  resumed.
\<close>

theorem consumer_acks_before_completion_witness:
  "failedStockCallback data0 (world0 pendiente)
     = (Inr (), (world0 pendiente)\<lparr>pending := [''o1'']\<rparr>)
   \<and> failedStockConsumer (Some \<lparr>tag = 7, parsed = Some data0\<rparr>) (world0 pendiente)
       = (Inr (), (world0 pendiente)\<lparr>pending := [''o1''], trace := [Ack 7]\<rparr>)
   \<and> consumer failedStockCallback (Some \<lparr>tag = 7, parsed = Some data0\<rparr>) (world0 pendiente)
       = (Inr (), (world0 pendiente)\<lparr>pending := [''o1''], trace := [Ack 7]\<rparr>)
   \<and> fst (resume env0 ((world0 pendiente)\<lparr>pending := [''o1''], trace := [Ack 7]\<rparr>)) = Inr ()"
proof -
  let ?w1 = "(world0 pendiente)\<lparr>pending := [''o1'']\<rparr>"
  let ?w2 = "(world0 pendiente)\<lparr>pending := [''o1''], trace := [Ack 7]\<rparr>"
  have cb: "failedStockCallback data0 (world0 pendiente) = (Inr (), ?w1)"
    by (simp add: failedStockCallback_def failedOrderId_data0 world0_simps)
  note t = consumer_acks_before_completion
      [where t = 7 and data = data0 and w = "world0 pendiente" and callback = failedStockCallback
         and c = data0 and ?w1.0 = ?w1 and e = env0]
  from t have "failedStockConsumer (Some \<lparr>tag = 7, parsed = Some data0\<rparr>) (world0 pendiente)
       = (Inr (), (world0 pendiente)\<lparr>pending := pending (world0 pendiente) @ (case failedOrderId data0 of
                                           Inr (Some oid) \<Rightarrow> [oid] | _ \<Rightarrow> []),
               trace := trace (world0 pendiente) @ [Ack 7]\<rparr>)"
    by (rule conjunct1)
  then have a: "failedStockConsumer (Some \<lparr>tag = 7, parsed = Some data0\<rparr>) (world0 pendiente)
       = (Inr (), ?w2)"
    by (simp add: failedOrderId_data0 world0_simps)
  from t have "failedStockCallback data0 (world0 pendiente) = (Inr (), ?w1)
        \<longrightarrow> consumer failedStockCallback (Some \<lparr>tag = 7, parsed = Some data0\<rparr>) (world0 pendiente)
              = (Inr (), ?w1\<lparr>trace := trace ?w1 @ [Ack 7]\<rparr>)"
    by (rule conjunct1[OF conjunct2])
  with cb have "consumer failedStockCallback (Some \<lparr>tag = 7, parsed = Some data0\<rparr>) (world0 pendiente)
              = (Inr (), ?w1\<lparr>trace := trace ?w1 @ [Ack 7]\<rparr>)"
    by (rule rev_mp)
  then have b: "consumer failedStockCallback (Some \<lparr>tag = 7, parsed = Some data0\<rparr>) (world0 pendiente)
       = (Inr (), ?w2)"
    by (simp add: world0_simps)
  have c: "fst (resume env0 ?w2) = Inr ()"
    by (rule resume_never_throws)
  from cb a b c show ?thesis by simp
qed

lemma resumed_handler_cancels:
  "resume env0 ((world0 pendiente)\<lparr>pending := [''o1''], trace := [Ack 7]\<rparr>)
     = (Inr (), (world0 pendiente)
         \<lparr>orders := [stockCancelled env0 (order0 pendiente)],
          trace := [Ack 7, Save (stockCancelled env0 (order0 pendiente)),
                    Email Cancellation (stockCancelled env0 (order0 pendiente))]\<rparr>)"
proof -
  have idc: "id_col (stockCancelled env0 (order0 pendiente)) = Some ''o1''"
    by (simp add: stockCancelled_def order0_simps)
  show ?thesis
    by (simp add: resume_def cancelForStock_def io_defs' world0_simps selectOrder_order0
          order0_simps env0_simps stockCancelled_def[symmetric] sendOrderCancellationEmail_def
          save_keyed[OF env0_simps(2) idc] upsert_world0[OF idc] Let_def world0_def)
qed

end
